theory Spec2Isabelle
  imports Complex_Main
begin

section \<open>Flight dynamics engine: data model\<close>

text \<open>
  The engine is the TypeScript class \<open>AircraftPhysics\<close>. JavaScript numbers are modelled
  as real numbers (no rounding, no NaN, no infinities); every mutation of \<open>this\<close> is
  explicit state passing on a record of the object's fields.
\<close>

subsection \<open>Vectors of three.js and the interfaces of types/aircraft\<close>

text \<open>\<open>THREE.Vector3\<close>; also used for \<open>THREE.Euler\<close>, whose order tag is always 'YXZ'.\<close>

record Vector3 =
  vx :: real
  vy :: real
  vz :: real

text \<open>\<open>THREE.Vector2\<close>.\<close>

record Vector2 =
  ux :: real
  uy :: real

record LngLat =
  lng :: real
  lat :: real

record AircraftControls =
  c_pitch :: real
  c_roll :: real
  c_yaw :: real
  c_throttle :: real
  c_verticalThrust :: real

record BoundaryStatus =
  distanceToCenter :: real
  distanceToEdge :: real
  percentToEdge :: real
  isCrossingBoundary :: bool
  isNearBoundary :: bool
  directionToCenter :: Vector2

record AircraftState =
  position :: Vector3
  velocity :: Vector3
  speed :: real
  altitude :: real
  heading :: real
  pitch :: real
  roll :: real
  rotation :: Vector3
  angularVelocity :: Vector3
  throttle :: real
  isFlying :: bool
  isGrounded :: bool
  mapPosition :: LngLat
  stateBoundaryStatus :: BoundaryStatus

text \<open>
  Listeners are callbacks; the engine only stores them and calls them. A listener is
  identified by a number, and each call \<open>listener(state)\<close> is recorded in the trace
  \<open>notified\<close> together with the snapshot it received.
\<close>

type_synonym listener = nat

record AircraftPhysics =
  state :: AircraftState
  bankAngle :: real
  targetBankAngle :: real
  bankMomentum :: real
  turnYawRate :: real
  prevControls :: AircraftControls
  lastUpdateTime :: real
  lastAircraftLog :: "real option"
  lastBoundaryCheck :: real
  boundaryStatus :: BoundaryStatus
  updateListeners :: "listener list"
  hasUserInput :: bool
  notified :: "(listener \<times> AircraftState) list"

subsection \<open>Configuration (config/config.ts)\<close>

record MapBoundary =
  ENABLED :: bool
  RADIUS_KM :: real
  CENTER :: LngLat
  FORCE_MULTIPLIER :: real
  WARNING_THRESHOLD :: real
  HARD_BOUNDARY :: bool
  DISTANCE_CHECK_INTERVAL :: real

definition DEFAULT_CENTER :: LngLat where
  "DEFAULT_CENTER = \<lparr>lng = 106.636, lat = 10.811\<rparr>"

definition MAP_BOUNDARY :: MapBoundary where
  "MAP_BOUNDARY = \<lparr>ENABLED = True, RADIUS_KM = 10, CENTER = DEFAULT_CENTER,
     FORCE_MULTIPLIER = 3.0, WARNING_THRESHOLD = 0.85, HARD_BOUNDARY = True,
     DISTANCE_CHECK_INTERVAL = 100\<rparr>"

definition DEFAULT_ALTITUDE :: real where "DEFAULT_ALTITUDE = 0"
definition MAX_SPEED :: real where "MAX_SPEED = 2.0"
definition MAX_THROTTLE :: real where "MAX_THROTTLE = 0.5"
definition THROTTLE_CHANGE_RATE :: real where "THROTTLE_CHANGE_RATE = 0.01"
definition MIN_THROTTLE_TO_MOVE :: real where "MIN_THROTTLE_TO_MOVE = 0.01"
definition HORIZONTAL_DECAY_RATE :: real where "HORIZONTAL_DECAY_RATE = 0.5"
definition VERTICAL_DECAY_RATE :: real where "VERTICAL_DECAY_RATE = 0.2"
definition THROTTLE_DECAY_RATE :: real where "THROTTLE_DECAY_RATE = 0.2"

text \<open>\<open>AIRCRAFT.CONTROLS.BANK\<close>, \<open>TURN\<close>, \<open>SMOOTHING\<close>, \<open>NO_THROTTLE_DECAY\<close>.\<close>

definition BANK_TARGET_LEFT :: real where "BANK_TARGET_LEFT = -35"
definition BANK_TARGET_RIGHT :: real where "BANK_TARGET_RIGHT = 35"
definition BANK_MOMENTUM_FACTOR :: real where "BANK_MOMENTUM_FACTOR = 0.3"
definition BANK_MOMENTUM_DAMPENING :: real where "BANK_MOMENTUM_DAMPENING = 0.7"
definition BANK_ANGLE_BLEND_FACTOR :: real where "BANK_ANGLE_BLEND_FACTOR = 0.15"
definition BANK_ANGLE_RETENTION_FACTOR :: real where "BANK_ANGLE_RETENTION_FACTOR = 0.85"
definition BANK_MIN_ANGLE_FOR_TURN :: real where "BANK_MIN_ANGLE_FOR_TURN = 5"
definition BANK_STEEP_TURN_THRESHOLD :: real where "BANK_STEEP_TURN_THRESHOLD = 25"
definition TURN_AIRSPEED_BASE_MULTIPLIER :: real where "TURN_AIRSPEED_BASE_MULTIPLIER = 0.3"
definition TURN_AIRSPEED_FACTOR :: real where "TURN_AIRSPEED_FACTOR = 0.3"
definition TURN_MAX_TURN_RATE :: real where "TURN_MAX_TURN_RATE = 1.2"
definition TURN_RATE_BASE_FACTOR :: real where "TURN_RATE_BASE_FACTOR = 0.2"
definition TURN_RATE_BLEND_FACTOR :: real where "TURN_RATE_BLEND_FACTOR = 0.3"
definition TURN_RATE_RETENTION_FACTOR :: real where "TURN_RATE_RETENTION_FACTOR = 0.7"
definition BANK_COMPENSATION_DIVISOR :: real where "BANK_COMPENSATION_DIVISOR = 45"
definition BANK_COMPENSATION_FACTOR :: real where "BANK_COMPENSATION_FACTOR = 0.2"
definition SMOOTHING_DECAY_FACTOR :: real where "SMOOTHING_DECAY_FACTOR = 0.8"
definition BANK_ANGLE_DECAY :: real where "BANK_ANGLE_DECAY = 0.9"
definition TARGET_BANK_DECAY :: real where "TARGET_BANK_DECAY = 0.9"
definition BANK_MOMENTUM_DECAY :: real where "BANK_MOMENTUM_DECAY = 0.8"
definition TURN_YAW_RATE_DECAY :: real where "TURN_YAW_RATE_DECAY = 0.8"

text \<open>\<open>AIRCRAFT.PHYSICS\<close>.\<close>

definition SENSITIVITY_PITCH :: real where "SENSITIVITY_PITCH = 0.07"
definition SENSITIVITY_ROLL :: real where "SENSITIVITY_ROLL = 0.07"
definition SENSITIVITY_YAW :: real where "SENSITIVITY_YAW = 0.02"
definition MAX_ANGULAR_VELOCITY :: real where "MAX_ANGULAR_VELOCITY = 1.5"
definition MAX_ROTATION :: real where "MAX_ROTATION = pi / 2"
definition STABILIZATION_RATE :: real where "STABILIZATION_RATE = 0.03"
definition STABILIZATION_APPLY_TO_PITCH :: bool where "STABILIZATION_APPLY_TO_PITCH = True"
definition STABILIZATION_APPLY_TO_ROLL :: bool where "STABILIZATION_APPLY_TO_ROLL = True"
definition ROLL_VELOCITY_THRESHOLD :: real where "ROLL_VELOCITY_THRESHOLD = 0.001"
definition OSCILLATION_MAGNITUDE_FACTOR :: real where "OSCILLATION_MAGNITUDE_FACTOR = 0.005"
definition OSCILLATION_FREQUENCY :: real where "OSCILLATION_FREQUENCY = 500"
definition PITCH_COUPLING_MAGNITUDE_FACTOR :: real where "PITCH_COUPLING_MAGNITUDE_FACTOR = 0.002"
definition PITCH_COUPLING_YAW_VELOCITY_THRESHOLD :: real where
  "PITCH_COUPLING_YAW_VELOCITY_THRESHOLD = 0.2"
definition BASE_DAMPING :: real where "BASE_DAMPING = 0.95"
definition SPEED_DEPENDENT_FACTOR :: real where "SPEED_DEPENDENT_FACTOR = 0.05"
definition SPEED_DIVISOR :: real where "SPEED_DIVISOR = 15"
definition PHYSICS_RATE :: real where "PHYSICS_RATE = 60"
definition THRUST_MULTIPLIER :: real where "THRUST_MULTIPLIER = 3.0"
definition PITCH_INFLUENCE :: real where "PITCH_INFLUENCE = 3.0"
definition ROLL_FACTOR_EXPONENT :: real where "ROLL_FACTOR_EXPONENT = 1.2"
definition ROLL_FACTOR_MULTIPLIER :: real where "ROLL_FACTOR_MULTIPLIER = 2.0"
definition SPEED_INFLUENCE_BASE :: real where "SPEED_INFLUENCE_BASE = 1.0"
definition SPEED_INFLUENCE_FACTOR :: real where "SPEED_INFLUENCE_FACTOR = 0.05"
definition SPEED_INFLUENCE_MAX :: real where "SPEED_INFLUENCE_MAX = 2.0"
definition LIFT_LOSS_ANGLE_THRESHOLD :: real where "LIFT_LOSS_ANGLE_THRESHOLD = 0.7"
definition LIFT_LOSS_VERTICAL_THRUST_THRESHOLD :: real where
  "LIFT_LOSS_VERTICAL_THRUST_THRESHOLD = 0.2"
definition LIFT_LOSS_MAX_LOSS_FACTOR :: real where "LIFT_LOSS_MAX_LOSS_FACTOR = 0.5"
definition VERTICAL_THRUST_MULTIPLIER :: real where "VERTICAL_THRUST_MULTIPLIER = 3.0"
definition LOGGING_AIRCRAFT_INTERVAL :: real where "LOGGING_AIRCRAFT_INTERVAL = 2000"

section \<open>Library functions the engine calls\<close>

subsection \<open>JavaScript \<open>Math\<close> and the remainder operator\<close>

text \<open>\<open>a % b\<close> on numbers: the remainder of truncated division, with the sign of \<open>a\<close>.\<close>

definition js_trunc :: "real \<Rightarrow> int" where
  "js_trunc r = (if 0 \<le> r then \<lfloor>r\<rfloor> else \<lceil>r\<rceil>)"

definition js_rem :: "real \<Rightarrow> real \<Rightarrow> real" where
  "js_rem a b = a - b * of_int (js_trunc (a / b))"

text \<open>
  \<open>Math.pow(b, e)\<close>: 1 for exponent 0, otherwise \<open>b powr e\<close>, which is the value of
  \<open>Math.pow\<close> for \<open>b > 0\<close> and for \<open>b = 0 < e\<close>. Every call of the engine has base
  \<open>0.97\<close>, \<open>|roll| * 2\<close> with exponent \<open>1.2\<close>, or the damping factor, which is at least
  \<open>0.95\<close> when \<open>speed\<close> is not negative.
\<close>

definition Math_pow :: "real \<Rightarrow> real \<Rightarrow> real" where
  "Math_pow b e = (if e = 0 then 1 else b powr e)"

text \<open>\<open>Math.atan2(y, x)\<close>.\<close>

definition Math_atan2 :: "real \<Rightarrow> real \<Rightarrow> real" where
  "Math_atan2 y x =
     (if 0 < x then arctan (y / x)
      else if x < 0 then (if 0 \<le> y then arctan (y / x) + pi else arctan (y / x) - pi)
      else if 0 < y then pi / 2
      else if y < 0 then - pi / 2
      else 0)"

subsection \<open>three.js\<close>

definition degToRad :: "real \<Rightarrow> real" where
  "degToRad d = d * (pi / 180)"

definition radToDeg :: "real \<Rightarrow> real" where
  "radToDeg r = r * (180 / pi)"

text \<open>\<open>Vector3.length()\<close>.\<close>

definition length3 :: "Vector3 \<Rightarrow> real" where
  "length3 v = sqrt (vx v * vx v + vy v * vy v + vz v * vz v)"

definition multiplyScalar3 :: "real \<Rightarrow> Vector3 \<Rightarrow> Vector3" where
  "multiplyScalar3 k v = \<lparr>vx = vx v * k, vy = vy v * k, vz = vz v * k\<rparr>"

text \<open>\<open>Vector3.normalize()\<close> is \<open>divideScalar(length() || 1)\<close>: the zero vector stays zero.\<close>

definition normalize3 :: "Vector3 \<Rightarrow> Vector3" where
  "normalize3 v = multiplyScalar3 (1 / (if length3 v = 0 then 1 else length3 v)) v"

definition length2 :: "Vector2 \<Rightarrow> real" where
  "length2 v = sqrt (ux v * ux v + uy v * uy v)"

definition multiplyScalar2 :: "real \<Rightarrow> Vector2 \<Rightarrow> Vector2" where
  "multiplyScalar2 k v = \<lparr>ux = ux v * k, uy = uy v * k\<rparr>"

definition normalize2 :: "Vector2 \<Rightarrow> Vector2" where
  "normalize2 v = multiplyScalar2 (1 / (if length2 v = 0 then 1 else length2 v)) v"

definition dot2 :: "Vector2 \<Rightarrow> Vector2 \<Rightarrow> real" where
  "dot2 a b = ux a * ux b + uy a * uy b"

text \<open>
  \<open>new Vector3(0, 0, -1).applyMatrix4(m)\<close> and \<open>new Vector3(1, 0, 0).applyMatrix4(m)\<close> for
  \<open>m = makeRotationFromEuler(new Euler(0, yaw, 0, 'YXZ'))\<close>: the rotation about the
  vertical axis, whose matrix has the rows \<open>(cos yaw, 0, sin yaw)\<close>, \<open>(0, 1, 0)\<close> and
  \<open>(- sin yaw, 0, cos yaw)\<close>.
\<close>

definition forwardVector :: "real \<Rightarrow> Vector3" where
  "forwardVector yaw = \<lparr>vx = - sin yaw, vy = 0, vz = - cos yaw\<rparr>"

definition rightVector :: "real \<Rightarrow> Vector3" where
  "rightVector yaw = \<lparr>vx = cos yaw, vy = 0, vz = - sin yaw\<rparr>"

subsection \<open>utils/math-helpers.ts\<close>

definition eulerToHPR :: "Vector3 \<Rightarrow> real \<times> real \<times> real" where
  "eulerToHPR euler =
     (let heading = js_rem (radToDeg (vy euler)) 360;
          pitch = radToDeg (vx euler);
          roll = radToDeg (vz euler);
          normalizedHeading = (if heading < 0 then heading + 360 else heading)
      in (normalizedHeading, pitch, roll))"

definition calculateGeoDistanceKm :: "real \<Rightarrow> real \<Rightarrow> real \<Rightarrow> real \<Rightarrow> real" where
  "calculateGeoDistanceKm lon1 lat1 lon2 lat2 =
     (let R = 6371;
          dLat = degToRad (lat2 - lat1);
          dLon = degToRad (lon2 - lon1);
          a = sin (dLat / 2) * sin (dLat / 2) +
              cos (degToRad lat1) * cos (degToRad lat2) * sin (dLon / 2) * sin (dLon / 2);
          c = 2 * Math_atan2 (sqrt a) (sqrt (1 - a))
      in R * c)"

definition calculateGeoDirection :: "real \<Rightarrow> real \<Rightarrow> real \<Rightarrow> real \<Rightarrow> Vector2" where
  "calculateGeoDirection fromLon fromLat toLon toLat =
     (let dLon = toLon - fromLon;
          dLat = toLat - fromLat;
          len = sqrt (dLon * dLon + dLat * dLat)
      in if len = 0 then \<lparr>ux = 0, uy = 0\<rparr>
         else \<lparr>ux = dLon / len, uy = dLat / len\<rparr>)"

section \<open>The engine (class AircraftPhysics)\<close>

subsection \<open>Construction, snapshots and listeners\<close>

text \<open>
  \<open>constructor(initialHeadingDegrees)\<close>; \<open>t0\<close> is the value of \<open>performance.now()\<close>
  at construction.
\<close>

definition initialBoundaryStatus :: BoundaryStatus where
  "initialBoundaryStatus = \<lparr>distanceToCenter = 0, distanceToEdge = 0, percentToEdge = 0,
     isCrossingBoundary = False, isNearBoundary = False,
     directionToCenter = \<lparr>ux = 0, uy = 0\<rparr>\<rparr>"

definition constructor :: "real \<Rightarrow> real \<Rightarrow> AircraftPhysics" where
  "constructor initialHeadingDegrees t0 =
     (let initialHeadingRadians = degToRad initialHeadingDegrees in
      \<lparr>state = \<lparr>position = \<lparr>vx = 0, vy = DEFAULT_ALTITUDE, vz = 0\<rparr>,
                velocity = \<lparr>vx = 0, vy = 0, vz = 0\<rparr>,
                speed = 0,
                altitude = DEFAULT_ALTITUDE,
                heading = initialHeadingDegrees,
                pitch = 0,
                roll = 0,
                rotation = \<lparr>vx = 0, vy = initialHeadingRadians, vz = 0\<rparr>,
                angularVelocity = \<lparr>vx = 0, vy = 0, vz = 0\<rparr>,
                throttle = 0,
                isFlying = True,
                isGrounded = False,
                mapPosition = DEFAULT_CENTER,
                stateBoundaryStatus = initialBoundaryStatus\<rparr>,
       bankAngle = 0, targetBankAngle = 0, bankMomentum = 0, turnYawRate = 0,
       prevControls = \<lparr>c_pitch = 0, c_roll = 0, c_yaw = 0, c_throttle = 0,
                        c_verticalThrust = 0\<rparr>,
       lastUpdateTime = t0,
       lastAircraftLog = None,
       lastBoundaryCheck = 0,
       boundaryStatus = initialBoundaryStatus,
       updateListeners = [],
       hasUserInput = False,
       notified = []\<rparr>)"

text \<open>
  \<open>getState()\<close> returns \<open>{ ...this.state }\<close>. In this value model the snapshot is the
  value of the state; the sharing of the nested objects between the snapshot and the
  engine is the subject of the store model further below.
\<close>

definition getState :: "AircraftPhysics \<Rightarrow> AircraftState" where
  "getState e = state e"

definition notifyUpdateListeners :: "AircraftPhysics \<Rightarrow> AircraftPhysics" where
  "notifyUpdateListeners e =
     (let s = getState e
      in e\<lparr>notified := notified e @ map (\<lambda>l. (l, s)) (updateListeners e)\<rparr>)"

definition onPhysicsUpdate :: "listener \<Rightarrow> AircraftPhysics \<Rightarrow> AircraftPhysics" where
  "onPhysicsUpdate callback e = e\<lparr>updateListeners := updateListeners e @ [callback]\<rparr>"

text \<open>\<open>indexOf\<close> finds the first occurrence, \<open>splice(index, 1)\<close> removes it.\<close>

definition removeUpdateListener :: "listener \<Rightarrow> AircraftPhysics \<Rightarrow> AircraftPhysics" where
  "removeUpdateListener callback e = e\<lparr>updateListeners := remove1 callback (updateListeners e)\<rparr>"

definition setHeading :: "real \<Rightarrow> AircraftPhysics \<Rightarrow> AircraftPhysics" where
  "setHeading headingDegrees e =
     (let normalizedHeading = js_rem (js_rem headingDegrees 360 + 360) 360;
          headingRadians = degToRad normalizedHeading;
          s = state e;
          s1 = s\<lparr>heading := normalizedHeading\<rparr>;
          s2 = s1\<lparr>rotation := (rotation s1)\<lparr>vy := headingRadians\<rparr>\<rparr>
      in notifyUpdateListeners (e\<lparr>state := s2\<rparr>))"

subsection \<open>Control inputs\<close>

text \<open>\<open>Math.sign\<close> is \<open>sgn\<close>; \<open>Math.abs\<close>, \<open>Math.min\<close>, \<open>Math.max\<close> are \<open>abs\<close>, \<open>min\<close>, \<open>max\<close>.\<close>

definition processControls :: "AircraftControls \<Rightarrow> AircraftPhysics \<Rightarrow> AircraftControls \<times> AircraftPhysics" where
  "processControls rawControls e =
     (let e1 = (if c_roll rawControls < 0 then
                  e\<lparr>targetBankAngle := BANK_TARGET_LEFT,
                    bankMomentum := bankMomentum e - BANK_MOMENTUM_FACTOR\<rparr>
                else if c_roll rawControls > 0 then
                  e\<lparr>targetBankAngle := BANK_TARGET_RIGHT,
                    bankMomentum := bankMomentum e + BANK_MOMENTUM_FACTOR\<rparr>
                else
                  e\<lparr>targetBankAngle := 0,
                    bankMomentum := bankMomentum e * BANK_MOMENTUM_DAMPENING\<rparr>);
          coordinatedTurn = (c_throttle rawControls > 0 \<or> c_throttle rawControls < 0);
          processedControls = rawControls;
          (processedControls2, e2) =
            (if coordinatedTurn \<and> throttle (state e1) > MIN_THROTTLE_TO_MOVE then
               (let e1a = e1\<lparr>bankAngle := bankAngle e1 * BANK_ANGLE_RETENTION_FACTOR +
                                 targetBankAngle e1 * BANK_ANGLE_BLEND_FACTOR\<rparr>;
                    airspeedMultiplier = TURN_AIRSPEED_BASE_MULTIPLIER +
                                 \<bar>throttle (state e1a)\<bar> * TURN_AIRSPEED_FACTOR
                in if \<bar>bankAngle e1a\<bar> > BANK_MIN_ANGLE_FOR_TURN then
                     (let bankRadians = \<bar>bankAngle e1a\<bar> * (pi / 180);
                          turnRate = min TURN_MAX_TURN_RATE
                                       (TURN_RATE_BASE_FACTOR * tan bankRadians * airspeedMultiplier);
                          e1b = e1a\<lparr>turnYawRate := turnYawRate e1a * TURN_RATE_RETENTION_FACTOR +
                                               turnRate * TURN_RATE_BLEND_FACTOR\<rparr>;
                          p1 = (if c_yaw processedControls = 0
                                then processedControls\<lparr>c_yaw := sgn (bankAngle e1b) * turnYawRate e1b\<rparr>
                                else processedControls);
                          p2 = (if \<bar>bankAngle e1b\<bar> > BANK_STEEP_TURN_THRESHOLD \<and> c_pitch p1 = 0
                                then (let bankCompensation =
                                            \<bar>bankAngle e1b\<bar> / BANK_COMPENSATION_DIVISOR * BANK_COMPENSATION_FACTOR
                                      in p1\<lparr>c_pitch := c_pitch p1 - bankCompensation\<rparr>)
                                else p1)
                      in (p2, e1b))
                   else (processedControls, e1a))
             else
               (processedControls,
                e1\<lparr>bankAngle := bankAngle e1 * BANK_ANGLE_DECAY,
                   targetBankAngle := targetBankAngle e1 * TARGET_BANK_DECAY,
                   bankMomentum := bankMomentum e1 * BANK_MOMENTUM_DECAY,
                   turnYawRate := turnYawRate e1 * TURN_YAW_RATE_DECAY\<rparr>));
          prev = prevControls e2;
          newPrev = \<lparr>c_pitch = (if c_pitch processedControls2 \<noteq> 0 then c_pitch processedControls2
                                else c_pitch prev * SMOOTHING_DECAY_FACTOR),
                     c_roll = (if c_roll processedControls2 \<noteq> 0 then c_roll processedControls2
                               else c_roll prev * SMOOTHING_DECAY_FACTOR),
                     c_yaw = (if c_yaw processedControls2 \<noteq> 0 then c_yaw processedControls2
                              else c_yaw prev * SMOOTHING_DECAY_FACTOR),
                     c_throttle = c_throttle processedControls2,
                     c_verticalThrust = (if c_verticalThrust processedControls2 \<noteq> 0
                                         then c_verticalThrust processedControls2
                                         else c_verticalThrust prev * SMOOTHING_DECAY_FACTOR)\<rparr>
      in (newPrev, e2\<lparr>prevControls := newPrev\<rparr>))"

definition clampTo :: "real \<Rightarrow> real \<Rightarrow> real" where
  "clampTo m v = max (- m) (min m v)"

definition applyControlInputs :: "AircraftControls \<Rightarrow> AircraftPhysics \<Rightarrow> AircraftPhysics" where
  "applyControlInputs rawControls e =
     (let (controls, e1) = processControls rawControls e;
          e2 = e1\<lparr>hasUserInput := True\<rparr>;
          s = state e2;
          av = angularVelocity s;
          av1 = av\<lparr>vx := vx av + c_pitch controls * SENSITIVITY_PITCH\<rparr>;
          av2 = av1\<lparr>vz := vz av1 + c_roll controls * SENSITIVITY_ROLL\<rparr>;
          av3 = av2\<lparr>vy := vy av2 + c_yaw controls * SENSITIVITY_YAW\<rparr>;
          av4 = av3\<lparr>vx := clampTo MAX_ANGULAR_VELOCITY (vx av3)\<rparr>;
          av5 = av4\<lparr>vy := clampTo MAX_ANGULAR_VELOCITY (vy av4)\<rparr>;
          av6 = av5\<lparr>vz := clampTo MAX_ANGULAR_VELOCITY (vz av5)\<rparr>;
          s1 = s\<lparr>angularVelocity := av6\<rparr>;
          s2 = (if c_throttle controls \<noteq> 0 then
                  (let throttleChange = c_throttle controls * THROTTLE_CHANGE_RATE
                   in s1\<lparr>throttle := max 0 (min MAX_THROTTLE (throttle s1 + throttleChange))\<rparr>)
                else s1);
          r = rotation s2;
          r1 = r\<lparr>vx := clampTo MAX_ROTATION (vx r)\<rparr>;
          r2 = r1\<lparr>vz := clampTo MAX_ROTATION (vz r1)\<rparr>
      in e2\<lparr>state := s2\<lparr>rotation := r2\<rparr>\<rparr>)"

subsection \<open>Boundary status\<close>

text \<open>
  \<open>MAP_BOUNDARY\<close> is a module constant of config.ts; the functions that read it take it
  as their first argument \<open>mb\<close>, and the engine as configured is the instance
  \<open>mb = MAP_BOUNDARY\<close>. The guard \<open>!this.state.mapPosition\<close> of \<open>updateBoundaryStatus\<close> is
  never true: the constructor and \<open>updateMapPosition\<close> always store an object. The quotient
  \<open>distanceToCenter / RADIUS_KM\<close> is the source's only for a radius other than 0.
\<close>

definition updateBoundaryStatus :: "MapBoundary \<Rightarrow> AircraftPhysics \<Rightarrow> AircraftPhysics" where
  "updateBoundaryStatus mb e =
     (if \<not> ENABLED mb then e
      else
        (let mp = mapPosition (state e);
             distanceToCenter = calculateGeoDistanceKm (lng mp) (lat mp)
                                  (lng (CENTER mb)) (lat (CENTER mb));
             distanceToEdge = RADIUS_KM mb - distanceToCenter;
             percentToEdge = distanceToCenter / RADIUS_KM mb;
             directionVector = calculateGeoDirection (lng mp) (lat mp)
                                  (lng (CENTER mb)) (lat (CENTER mb));
             directionToCenter = \<lparr>ux = - ux directionVector, uy = - uy directionVector\<rparr>;
             bs = \<lparr>distanceToCenter = distanceToCenter,
                   distanceToEdge = distanceToEdge,
                   percentToEdge = percentToEdge,
                   isCrossingBoundary = (distanceToEdge \<le> 0),
                   isNearBoundary = (percentToEdge \<ge> WARNING_THRESHOLD mb \<and> percentToEdge < 1),
                   directionToCenter = directionToCenter\<rparr>
         in e\<lparr>boundaryStatus := bs, state := (state e)\<lparr>stateBoundaryStatus := bs\<rparr>\<rparr>))"

definition updateMapPosition :: "MapBoundary \<Rightarrow> LngLat \<Rightarrow> AircraftPhysics \<Rightarrow> AircraftPhysics" where
  "updateMapPosition mb mp e =
     (let e1 = e\<lparr>state := (state e)\<lparr>mapPosition := mp\<rparr>\<rparr>
      in if ENABLED mb then updateBoundaryStatus mb e1 else e1)"

subsection \<open>Boundary forces\<close>

definition applyBoundaryForce :: "real \<Rightarrow> real \<Rightarrow> AircraftPhysics \<Rightarrow> AircraftPhysics" where
  "applyBoundaryForce forceMagnitude deltaTime e =
     (if forceMagnitude \<le> 0 then e
      else
        (let forceDirection = normalize3 \<lparr>vx = ux (directionToCenter (boundaryStatus e)),
                                          vy = 0,
                                          vz = uy (directionToCenter (boundaryStatus e))\<rparr>;
             s = state e;
             v = velocity s;
             v1 = v\<lparr>vx := vx v + vx forceDirection * forceMagnitude * deltaTime * 5\<rparr>;
             v2 = v1\<lparr>vz := vz v1 + vz forceDirection * forceMagnitude * deltaTime * 5\<rparr>
         in e\<lparr>state := s\<lparr>velocity := v2\<rparr>\<rparr>))"

text \<open>
  The hard boundary, taken when the status is crossing and \<open>HARD_BOUNDARY\<close> is set.
  \<open>normalized\<close> is scaled in place by \<open>safeRadius\<close> before \<open>boundaryNormal\<close> is bound to
  it, so the normal used for the reflection has length \<open>safeRadius\<close>.
\<close>

definition hardBoundary :: "MapBoundary \<Rightarrow> AircraftPhysics \<Rightarrow> AircraftPhysics" where
  "hardBoundary mb e =
     (let mp = mapPosition (state e);
          dirToAircraft = \<lparr>ux = lng mp - lng (CENTER mb), uy = lat mp - lat (CENTER mb)\<rparr>;
          currentDistance = length2 dirToAircraft
      in if currentDistance > 0 then
           (let boundaryRadius = RADIUS_KM mb * 0.00009;
                safeRadius = boundaryRadius * 0.99;
                normalized = multiplyScalar2 safeRadius (normalize2 dirToAircraft);
                newLng = lng (CENTER mb) + ux normalized;
                newLat = lat (CENTER mb) + uy normalized;
                s1 = (state e)\<lparr>mapPosition := \<lparr>lng = newLng, lat = newLat\<rparr>\<rparr>;
                velocityDirection = normalize2 \<lparr>ux = vx (velocity s1), uy = vz (velocity s1)\<rparr>;
                boundaryNormal = normalized;
                dotProduct = dot2 velocityDirection boundaryNormal;
                s2 = (if dotProduct > 0 then
                        (let outwardComponent = dotProduct * length2 velocityDirection;
                             reflectionFactor = 1.2;
                             dampingFactor = 0.8;
                             v = velocity s1;
                             v1 = v\<lparr>vx := vx v - ux boundaryNormal * outwardComponent *
                                                  reflectionFactor * dampingFactor\<rparr>;
                             v2 = v1\<lparr>vz := vz v1 - uy boundaryNormal * outwardComponent *
                                                  reflectionFactor * dampingFactor\<rparr>
                         in s1\<lparr>velocity := v2\<rparr>)
                      else s1)
            in e\<lparr>state := s2\<rparr>)
         else e)"

definition applyBoundaryForces :: "MapBoundary \<Rightarrow> real \<Rightarrow> AircraftPhysics \<Rightarrow> AircraftPhysics" where
  "applyBoundaryForces mb deltaTime e =
     (if \<not> ENABLED mb then e
      else if isCrossingBoundary (boundaryStatus e) then
        (if HARD_BOUNDARY mb then hardBoundary mb e
         else
           (let forceMagnitude = \<bar>distanceToEdge (boundaryStatus e)\<bar> * FORCE_MULTIPLIER mb * 5
            in applyBoundaryForce forceMagnitude deltaTime e))
      else if isNearBoundary (boundaryStatus e) then
        (let boundaryProximity = (percentToEdge (boundaryStatus e) - WARNING_THRESHOLD mb) /
                                 (1 - WARNING_THRESHOLD mb);
             forceMagnitude = boundaryProximity * FORCE_MULTIPLIER mb * 2
         in applyBoundaryForce forceMagnitude deltaTime e)
      else e)"

subsection \<open>The physics step\<close>

text \<open>
  \<open>updateAircraftPhysics(deltaTime, now)\<close> is one long method; the model follows it block
  by block, one definition per commented block of the source, composed in the source's
  order by \<open>updateAircraftPhysics\<close> below. The blocks act on \<open>this.state\<close>; the two engine
  fields they read, \<open>hasUserInput\<close> and \<open>prevControls\<close>, are arguments.
\<close>

text \<open>Apply rotation from angular velocity.\<close>

definition applyRotation :: "real \<Rightarrow> AircraftState \<Rightarrow> AircraftState" where
  "applyRotation deltaTime s =
     (let av = angularVelocity s; r = rotation s
      in s\<lparr>rotation := \<lparr>vx = vx r + vx av * deltaTime,
                         vy = vy r + vy av * deltaTime,
                         vz = vz r + vz av * deltaTime\<rparr>\<rparr>)"

text \<open>Banking effects: roll oscillation and pitch coupling.\<close>

definition bankingEffects :: "real \<Rightarrow> AircraftState \<Rightarrow> AircraftState" where
  "bankingEffects now s =
     (if \<bar>vz (angularVelocity s)\<bar> > ROLL_VELOCITY_THRESHOLD then
        (let rollDirection = sgn (vz (angularVelocity s));
             rollMagnitude = \<bar>vz (angularVelocity s)\<bar>;
             oscillationAmount = rollMagnitude * OSCILLATION_MAGNITUDE_FACTOR *
                                 sin (now / OSCILLATION_FREQUENCY);
             s1 = s\<lparr>rotation := (rotation s)\<lparr>vz := vz (rotation s) + oscillationAmount\<rparr>\<rparr>
         in if \<bar>vy (angularVelocity s1)\<bar> < PITCH_COUPLING_YAW_VELOCITY_THRESHOLD then
              (let pitchCoupling = \<bar>rollMagnitude\<bar> * PITCH_COUPLING_MAGNITUDE_FACTOR *
                                   - rollDirection
               in s1\<lparr>rotation := (rotation s1)\<lparr>vx := vx (rotation s1) + pitchCoupling\<rparr>\<rparr>)
            else s1)
      else s)"

text \<open>Variable damping of the angular velocity.\<close>

definition angularDamping :: "real \<Rightarrow> AircraftState \<Rightarrow> AircraftState" where
  "angularDamping deltaTime s =
     (let speedFactor = min 1 (speed s / SPEED_DIVISOR);
          speedDependentDamping = BASE_DAMPING + SPEED_DEPENDENT_FACTOR * speedFactor;
          k = Math_pow speedDependentDamping (deltaTime * PHYSICS_RATE);
          av = angularVelocity s
      in s\<lparr>angularVelocity := \<lparr>vx = vx av * k, vy = vy av * k, vz = vz av * k\<rparr>\<rparr>)"

text \<open>Forces from orientation and throttle.\<close>

definition applyThrust :: "AircraftControls \<Rightarrow> real \<Rightarrow> AircraftState \<Rightarrow> AircraftState" where
  "applyThrust prev deltaTime s =
     (let fwd = forwardVector (vy (rotation s));
          rgt = rightVector (vy (rotation s))
      in if throttle s > MIN_THROTTLE_TO_MOVE then
        (let forwardThrust = throttle s * THRUST_MULTIPLIER;
             v = velocity s;
             v1 = v\<lparr>vx := vx v + vx fwd * forwardThrust * deltaTime,
                    vz := vz v + vz fwd * forwardThrust * deltaTime\<rparr>;
             pitchFactor = vx (rotation s) * PITCH_INFLUENCE;
             rollRadians = vz (rotation s);
             rollFactor = - sgn rollRadians *
                          Math_pow (\<bar>rollRadians\<bar> * ROLL_FACTOR_MULTIPLIER) ROLL_FACTOR_EXPONENT;
             v2 = v1\<lparr>vx := vx v1 + vx fwd * pitchFactor * deltaTime,
                     vz := vz v1 + vz fwd * pitchFactor * deltaTime\<rparr>;
             speedInfluence = SPEED_INFLUENCE_BASE + (speed s / 20 * SPEED_INFLUENCE_FACTOR);
             adjustedSpeedInfluence = min speedInfluence SPEED_INFLUENCE_MAX;
             v3 = v2\<lparr>vx := vx v2 + vx rgt * rollFactor * deltaTime * adjustedSpeedInfluence,
                     vz := vz v2 + vz rgt * rollFactor * deltaTime * adjustedSpeedInfluence\<rparr>;
             v4 = (if \<bar>rollRadians\<bar> > LIFT_LOSS_ANGLE_THRESHOLD \<and>
                      c_verticalThrust prev < LIFT_LOSS_VERTICAL_THRUST_THRESHOLD then
                     (let liftLoss = (1 - cos \<bar>rollRadians\<bar>) * LIFT_LOSS_MAX_LOSS_FACTOR
                      in v3\<lparr>vy := vy v3 - liftLoss * deltaTime\<rparr>)
                   else v3)
         in s\<lparr>velocity := v4\<rparr>)
      else s)"

text \<open>Vertical movement from \<open>verticalThrust\<close>.\<close>

definition applyVerticalThrust :: "AircraftControls \<Rightarrow> real \<Rightarrow> AircraftState \<Rightarrow> AircraftState" where
  "applyVerticalThrust prev deltaTime s =
     (if c_verticalThrust prev \<noteq> 0 then
        (let verticalForce = c_verticalThrust prev * VERTICAL_THRUST_MULTIPLIER
         in s\<lparr>velocity := (velocity s)\<lparr>vy := vy (velocity s) + verticalForce * deltaTime\<rparr>\<rparr>)
      else s)"

text \<open>Drag on each component of the velocity.\<close>

definition applyDrag :: "real \<Rightarrow> AircraftState \<Rightarrow> AircraftState" where
  "applyDrag deltaTime s =
     (let v = velocity s
      in s\<lparr>velocity := \<lparr>vx = vx v * (1 - HORIZONTAL_DECAY_RATE * deltaTime),
                         vy = vy v * (1 - VERTICAL_DECAY_RATE * deltaTime),
                         vz = vz v * (1 - HORIZONTAL_DECAY_RATE * deltaTime)\<rparr>\<rparr>)"

text \<open>Throttle decay when there is no user input and the throttle is active.\<close>

definition throttleDecay :: "bool \<Rightarrow> real \<Rightarrow> AircraftState \<Rightarrow> AircraftState" where
  "throttleDecay userInput deltaTime s =
     (if \<not> userInput \<and> throttle s > 0 then
        s\<lparr>throttle := max 0 (throttle s - THROTTLE_DECAY_RATE * deltaTime)\<rparr>
      else s)"

text \<open>Speed limit.\<close>

definition speedLimit :: "AircraftState \<Rightarrow> AircraftState" where
  "speedLimit s =
     (let currentSpeed = length3 (velocity s)
      in if currentSpeed > MAX_SPEED then
           s\<lparr>velocity := multiplyScalar3 MAX_SPEED (normalize3 (velocity s))\<rparr>
         else s)"

text \<open>Auto-stabilization when there is no user input.\<close>

definition autoStabilize :: "bool \<Rightarrow> real \<Rightarrow> AircraftState \<Rightarrow> AircraftState" where
  "autoStabilize userInput deltaTime s =
     (if \<not> userInput then
        (let s1 = (if STABILIZATION_APPLY_TO_PITCH then
                     s\<lparr>rotation := (rotation s)\<lparr>vx := vx (rotation s) *
                          Math_pow (1 - STABILIZATION_RATE) (deltaTime * PHYSICS_RATE)\<rparr>\<rparr>
                   else s)
         in if STABILIZATION_APPLY_TO_ROLL then
              s1\<lparr>rotation := (rotation s1)\<lparr>vz := vz (rotation s1) *
                   Math_pow (1 - STABILIZATION_RATE) (deltaTime * PHYSICS_RATE)\<rparr>\<rparr>
            else s1)
      else s)"

text \<open>Position from velocity.\<close>

definition updatePosition :: "real \<Rightarrow> AircraftState \<Rightarrow> AircraftState" where
  "updatePosition deltaTime s =
     (let p = position s; v = velocity s
      in s\<lparr>position := \<lparr>vx = vx p + vx v * deltaTime,
                         vy = vy p + vy v * deltaTime,
                         vz = vz p + vz v * deltaTime\<rparr>\<rparr>)"

text \<open>Ground collision.\<close>

definition groundCollision :: "AircraftState \<Rightarrow> AircraftState" where
  "groundCollision s =
     (if vy (position s) < 0 then
        (let s1 = s\<lparr>position := (position s)\<lparr>vy := 0\<rparr>\<rparr>;
             v = velocity s1
         in if vy v < - 0.5 then
              s1\<lparr>velocity := \<lparr>vx = vx v * 0.8, vy = \<bar>vy v\<bar> * 0.1, vz = vz v * 0.8\<rparr>\<rparr>
            else
              s1\<lparr>velocity := v\<lparr>vy := 0\<rparr>\<rparr>)
      else s)"

text \<open>The derived fields.\<close>

definition updateDerived :: "AircraftState \<Rightarrow> AircraftState" where
  "updateDerived s =
     (let (h, p, r) = eulerToHPR (rotation s);
          s1 = s\<lparr>heading := h, pitch := p, roll := r\<rparr>;
          s2 = s1\<lparr>speed := length3 (velocity s1)\<rparr>;
          s3 = s2\<lparr>altitude := vy (position s2)\<rparr>;
          s4 = s3\<lparr>isGrounded := (vy (position s3) \<le> 0.5)\<rparr>
      in s4\<lparr>isFlying := (\<not> isGrounded s4)\<rparr>)"

text \<open>
  The periodic log writes to the console only; what it leaves in the engine is its
  time stamp. \<open>!this._lastAircraftLog\<close> holds for \<open>undefined\<close> and for 0.
\<close>

definition logAircraft :: "real \<Rightarrow> AircraftPhysics \<Rightarrow> AircraftPhysics" where
  "logAircraft now e =
     (if (case lastAircraftLog e of None \<Rightarrow> True
          | Some l \<Rightarrow> l = 0 \<or> now - l > LOGGING_AIRCRAFT_INTERVAL)
      then e\<lparr>lastAircraftLog := Some now\<rparr> else e)"

definition physicsState :: "bool \<Rightarrow> AircraftControls \<Rightarrow> real \<Rightarrow> real \<Rightarrow> AircraftState \<Rightarrow> AircraftState" where
  "physicsState userInput prev deltaTime now s =
     updateDerived (groundCollision (updatePosition deltaTime
       (autoStabilize userInput deltaTime (speedLimit (throttleDecay userInput deltaTime
         (applyDrag deltaTime (applyVerticalThrust prev deltaTime (applyThrust prev deltaTime
           (angularDamping deltaTime (bankingEffects now (applyRotation deltaTime s)))))))))))"

definition updateAircraftPhysics :: "real \<Rightarrow> real \<Rightarrow> AircraftPhysics \<Rightarrow> AircraftPhysics" where
  "updateAircraftPhysics deltaTime now e =
     logAircraft now
       (e\<lparr>state := physicsState (hasUserInput e) (prevControls e) deltaTime now (state e)\<rparr>)"

subsection \<open>The frame update\<close>

text \<open>
  \<open>update(currentTime)\<close>; \<open>now\<close> is the value of \<open>Date.now()\<close> read by the call. Its two
  conditional blocks, the throttled boundary check and the boundary forces, are the
  definitions \<open>checkBoundaryStatus\<close> and \<open>boundaryForcesIfNeeded\<close>.
\<close>

definition checkBoundaryStatus :: "MapBoundary \<Rightarrow> real \<Rightarrow> AircraftPhysics \<Rightarrow> AircraftPhysics" where
  "checkBoundaryStatus mb now e =
     (if ENABLED mb \<and> now - lastBoundaryCheck e > DISTANCE_CHECK_INTERVAL mb
      then (updateBoundaryStatus mb e)\<lparr>lastBoundaryCheck := now\<rparr>
      else e)"

definition boundaryForcesIfNeeded :: "MapBoundary \<Rightarrow> real \<Rightarrow> AircraftPhysics \<Rightarrow> AircraftPhysics" where
  "boundaryForcesIfNeeded mb deltaTime e =
     (if ENABLED mb \<and> (isNearBoundary (boundaryStatus e) \<or> isCrossingBoundary (boundaryStatus e))
      then applyBoundaryForces mb deltaTime e
      else e)"

definition update :: "MapBoundary \<Rightarrow> real \<Rightarrow> real \<Rightarrow> AircraftPhysics \<Rightarrow> AircraftPhysics" where
  "update mb currentTime now e =
     (let deltaTime = (currentTime - lastUpdateTime e) / 1000;
          e1 = e\<lparr>lastUpdateTime := currentTime\<rparr>
      in if deltaTime > 0.1 then e1
         else
           (let e2 = checkBoundaryStatus mb now e1;
                e3 = updateAircraftPhysics deltaTime now e2;
                e4 = boundaryForcesIfNeeded mb deltaTime e3;
                e5 = notifyUpdateListeners e4
            in e5\<lparr>hasUserInput := False\<rparr>))"

section \<open>Call sequences\<close>

text \<open>
  The public methods of the engine as calls; \<open>Update t now\<close> is \<open>update(t)\<close> with \<open>now\<close>
  the value of \<open>Date.now()\<close> during the call. \<open>run\<close> performs a sequence of calls in
  order.
\<close>

datatype call =
    ApplyControlInputs AircraftControls
  | Update real real
  | UpdateMapPosition LngLat
  | SetHeading real
  | OnPhysicsUpdate listener
  | RemoveUpdateListener listener

fun perform :: "MapBoundary \<Rightarrow> call \<Rightarrow> AircraftPhysics \<Rightarrow> AircraftPhysics" where
  "perform mb (ApplyControlInputs c) e = applyControlInputs c e"
| "perform mb (Update t now) e = update mb t now e"
| "perform mb (UpdateMapPosition p) e = updateMapPosition mb p e"
| "perform mb (SetHeading d) e = setHeading d e"
| "perform mb (OnPhysicsUpdate l) e = onPhysicsUpdate l e"
| "perform mb (RemoveUpdateListener l) e = removeUpdateListener l e"

fun run :: "MapBoundary \<Rightarrow> call list \<Rightarrow> AircraftPhysics \<Rightarrow> AircraftPhysics" where
  "run mb [] e = e"
| "run mb (c # cs) e = run mb cs (perform mb c e)"

text \<open>
  The contract of \<open>update\<close>: its time stamps never decrease, so that no \<open>deltaTime\<close> is
  negative.
\<close>

fun timeOk :: "call \<Rightarrow> AircraftPhysics \<Rightarrow> bool" where
  "timeOk (Update t now) e = (lastUpdateTime e \<le> t)"
| "timeOk c e = True"

fun timesOk :: "MapBoundary \<Rightarrow> call list \<Rightarrow> AircraftPhysics \<Rightarrow> bool" where
  "timesOk mb [] e = True"
| "timesOk mb (c # cs) e = (timeOk c e \<and> timesOk mb cs (perform mb c e))"

text \<open>
  Idle ticks: \<open>update\<close> called once per element of \<open>nows\<close> (the values of \<open>Date.now()\<close>),
  each call \<open>dtMs\<close> milliseconds after the previous one, with no other call in between.
  The result lists the engine after each tick.
\<close>

fun idleTicks :: "MapBoundary \<Rightarrow> real \<Rightarrow> real list \<Rightarrow> AircraftPhysics \<Rightarrow> AircraftPhysics list" where
  "idleTicks mb dtMs [] e = []"
| "idleTicks mb dtMs (now # nows) e =
     update mb (lastUpdateTime e + dtMs) now e #
     idleTicks mb dtMs nows (update mb (lastUpdateTime e + dtMs) now e)"

text \<open>A map position \<open>km\<close> kilometres due north of the configured centre.\<close>

definition northOfCenter :: "real \<Rightarrow> LngLat" where
  "northOfCenter km = \<lparr>lng = 106.636, lat = 10.811 + 180 * km / (6371 * pi)\<rparr>"

section \<open>The order of a frame as the specification words it\<close>


section \<open>Snapshots in a store of objects\<close>

text \<open>
  What a listener can do to the engine through the snapshot it receives depends on which
  objects the snapshot shares with \<open>this.state\<close>. Here objects live in a store: an object
  is a finite map from property names to values, and a value is a number, a boolean or a
  reference to an object.
\<close>

type_synonym addr = nat

datatype jsval = JNum real | JBool bool | JRef addr

type_synonym jsobj = "string \<rightharpoonup> jsval"

record store =
  objects :: "addr \<rightharpoonup> jsobj"
  nextAddr :: addr

text \<open>Creating an object: it gets the next unused address.\<close>

definition alloc :: "jsobj \<Rightarrow> store \<Rightarrow> addr \<times> store" where
  "alloc ob h = (nextAddr h, h\<lparr>objects := (objects h)(nextAddr h \<mapsto> ob), nextAddr := Suc (nextAddr h)\<rparr>)"

text \<open>\<open>{ ...this.state }\<close>: a new object with the own properties of the state object.\<close>

definition getState_store :: "addr \<Rightarrow> store \<Rightarrow> addr \<times> store" where
  "getState_store stateRef h =
     alloc (case objects h stateRef of Some ob \<Rightarrow> ob | None \<Rightarrow> Map.empty) h"

text \<open>
  \<open>resolve h a [p1, ..., pn]\<close> is the object \<open>a.p1. ... .pn\<close>, if every step is a
  reference. A listener is the list of assignments it performs on the snapshot it is
  given: \<open>Assign [p1, ..., pn] f v\<close> is \<open>snapshot.p1. ... .pn.f = v\<close>, so that
  \<open>Assign [] f v\<close> is \<open>snapshot.f = v\<close>. An assignment whose path does not lead to an
  object throws a TypeError (the result \<open>None\<close>), which ends the notification.
\<close>

fun resolve :: "store \<Rightarrow> addr \<Rightarrow> string list \<Rightarrow> addr option" where
  "resolve h a [] = (case objects h a of Some ob \<Rightarrow> Some a | None \<Rightarrow> None)"
| "resolve h a (p # ps) =
     (case objects h a of
        None \<Rightarrow> None
      | Some ob \<Rightarrow> (case ob p of Some (JRef b) \<Rightarrow> resolve h b ps | _ \<Rightarrow> None))"

datatype mutation = Assign "string list" string jsval

fun mutate :: "addr \<Rightarrow> mutation \<Rightarrow> store \<Rightarrow> store option" where
  "mutate snap (Assign ps f v) h =
     (case resolve h snap ps of
        None \<Rightarrow> None
      | Some a \<Rightarrow> (case objects h a of
                     None \<Rightarrow> None
                   | Some ob \<Rightarrow> Some (h\<lparr>objects := (objects h)(a \<mapsto> ob(f \<mapsto> v))\<rparr>)))"

fun callListener :: "addr \<Rightarrow> mutation list \<Rightarrow> store \<Rightarrow> store option" where
  "callListener snap [] h = Some h"
| "callListener snap (m # ms) h =
     (case mutate snap m h of None \<Rightarrow> None | Some h' \<Rightarrow> callListener snap ms h')"

text \<open>The loop of \<open>notifyUpdateListeners\<close>: every listener receives the same snapshot.\<close>

fun callListeners :: "addr \<Rightarrow> mutation list list \<Rightarrow> store \<Rightarrow> store option" where
  "callListeners snap [] h = Some h"
| "callListeners snap (l # ls) h =
     (case callListener snap l h of None \<Rightarrow> None | Some h' \<Rightarrow> callListeners snap ls h')"

definition notifyUpdateListeners_store :: "addr \<Rightarrow> mutation list list \<Rightarrow> store \<Rightarrow> store option" where
  "notifyUpdateListeners_store stateRef listeners h =
     (case getState_store stateRef h of (snap, h1) \<Rightarrow> callListeners snap listeners h1)"

text \<open>Reading \<open>a.p1. ... .pn.f\<close>.\<close>

definition readPath :: "store \<Rightarrow> addr \<Rightarrow> string list \<Rightarrow> string \<Rightarrow> jsval option" where
  "readPath h a ps f =
     (case resolve h a ps of
        None \<Rightarrow> None
      | Some b \<Rightarrow> (case objects h b of None \<Rightarrow> None | Some ob \<Rightarrow> ob f))"

text \<open>A listener that assigns only to properties of the snapshot object itself.\<close>

fun topLevel :: "mutation \<Rightarrow> bool" where
  "topLevel (Assign ps f v) = (ps = [])"

text \<open>
  The store the constructor leaves: \<open>DEFAULT_CENTER\<close> (address 0) exists before; the
  field initializer creates the boundary status (2) with its direction vector (1); the
  constructor body creates position (3), velocity (4), rotation (5), angular velocity (6)
  and the state object (7), whose \<open>mapPosition\<close> is \<open>DEFAULT_CENTER\<close> itself and whose
  \<open>boundaryStatus\<close> is \<open>this.boundaryStatus\<close>. The engine's other objects (\<open>prevControls\<close>,
  the listener array) cannot be reached from the state and are left out.
\<close>

definition vectorObj :: "real \<Rightarrow> real \<Rightarrow> real \<Rightarrow> jsobj" where
  "vectorObj a b c = [''x'' \<mapsto> JNum a, ''y'' \<mapsto> JNum b, ''z'' \<mapsto> JNum c]"

definition constructor_store :: "real \<Rightarrow> addr \<times> store" where
  "constructor_store initialHeadingDegrees =
     (let h0 = \<lparr>objects = [0 \<mapsto> [''lng'' \<mapsto> JNum 106.636, ''lat'' \<mapsto> JNum 10.811]], nextAddr = 1\<rparr>;
          (dir, h1) = alloc [''x'' \<mapsto> JNum 0, ''y'' \<mapsto> JNum 0] h0;
          (bs, h2) = alloc [''distanceToCenter'' \<mapsto> JNum 0, ''distanceToEdge'' \<mapsto> JNum 0,
                            ''percentToEdge'' \<mapsto> JNum 0, ''isCrossingBoundary'' \<mapsto> JBool False,
                            ''isNearBoundary'' \<mapsto> JBool False, ''directionToCenter'' \<mapsto> JRef dir] h1;
          (pos, h3) = alloc (vectorObj 0 DEFAULT_ALTITUDE 0) h2;
          (vel, h4) = alloc (vectorObj 0 0 0) h3;
          (rot, h5) = alloc (vectorObj 0 (degToRad initialHeadingDegrees) 0) h4;
          (av, h6) = alloc (vectorObj 0 0 0) h5
      in alloc [''position'' \<mapsto> JRef pos, ''velocity'' \<mapsto> JRef vel, ''speed'' \<mapsto> JNum 0,
                ''altitude'' \<mapsto> JNum DEFAULT_ALTITUDE, ''heading'' \<mapsto> JNum initialHeadingDegrees,
                ''pitch'' \<mapsto> JNum 0, ''roll'' \<mapsto> JNum 0, ''rotation'' \<mapsto> JRef rot,
                ''angularVelocity'' \<mapsto> JRef av, ''throttle'' \<mapsto> JNum 0,
                ''isFlying'' \<mapsto> JBool True, ''isGrounded'' \<mapsto> JBool False,
                ''mapPosition'' \<mapsto> JRef 0, ''boundaryStatus'' \<mapsto> JRef bs] h6)"

text \<open>
  The allocator's invariant: every object lies below \<open>nextAddr\<close>, and so does every
  reference stored in an object.
\<close>

definition wf_store :: "store \<Rightarrow> bool" where
  "wf_store h \<longleftrightarrow>
     (\<forall>a ob. objects h a = Some ob \<longrightarrow>
        a < nextAddr h \<and> (\<forall>p b. ob p = Some (JRef b) \<longrightarrow> b < nextAddr h))"

section \<open>Observations on a run of ticks\<close>

text \<open>A sequence of readings that never increases from one tick to the next.\<close>

fun nonIncreasing :: "real list \<Rightarrow> bool" where
  "nonIncreasing (a # b # xs) = (b \<le> a \<and> nonIncreasing (b # xs))"
| "nonIncreasing xs = True"

definition throttleOf :: "AircraftPhysics \<Rightarrow> real" where
  "throttleOf e = throttle (state e)"

definition pitchMagnitude :: "AircraftPhysics \<Rightarrow> real" where
  "pitchMagnitude e = \<bar>vx (rotation (state e))\<bar>"

definition rollMagnitude :: "AircraftPhysics \<Rightarrow> real" where
  "rollMagnitude e = \<bar>vz (rotation (state e))\<bar>"

text \<open>
  The engine one frame (1/60 s) after a newly constructed engine received the control
  record of the pitch-up key (\<open>pitch = -0.8\<close>, \<open>verticalThrust = 0.1\<close>); the input is
  released afterwards.
\<close>

definition pitchKey :: AircraftControls where
  "pitchKey = \<lparr>c_pitch = - 0.8, c_roll = 0, c_yaw = 0, c_throttle = 0, c_verticalThrust = 0.1\<rparr>"

definition afterPitchInput :: AircraftPhysics where
  "afterPitchInput =
     update MAP_BOUNDARY (50 / 3) 1700000000000 (applyControlInputs pitchKey (constructor 0 0))"

text \<open>
  An engine at rest with half throttle, a tilted attitude and no angular velocity.
\<close>

definition tiltedEngine :: AircraftPhysics where
  "tiltedEngine =
     (constructor 0 0)\<lparr>state := (state (constructor 0 0))
        \<lparr>throttle := 0.5, rotation := \<lparr>vx = 0.3, vy = 0, vz = - 0.2\<rparr>\<rparr>\<rparr>"

text \<open>
  A newly constructed engine whose map position was reported 9.9 km north of the centre
  of the 10 km boundary.
\<close>

definition nearEdge :: AircraftPhysics where
  "nearEdge = updateMapPosition MAP_BOUNDARY (northOfCenter 9.9) (constructor 0 0)"

text \<open>Two stores that differ at most in the object at \<open>snap\<close>, which exists in the second.\<close>

definition sameBut :: "addr \<Rightarrow> store \<Rightarrow> store \<Rightarrow> bool" where
  "sameBut snap h h' \<longleftrightarrow>
     (\<forall>a. a \<noteq> snap \<longrightarrow> objects h' a = objects h a) \<and> objects h' snap \<noteq> None
     \<and> nextAddr h' = nextAddr h"

section \<open>Verified properties\<close>

subsection \<open>Heading normalization\<close>

lemma js_rem_bounds: "0 < b \<Longrightarrow> \<bar>js_rem a b\<bar> < b"
proof -
  assume b: "0 < b"
  have "\<bar>a / b - of_int (js_trunc (a / b))\<bar> < 1"
    unfolding js_trunc_def by (auto; linarith)
  then have "\<bar>a / b - of_int (js_trunc (a / b))\<bar> * b < 1 * b"
    using b by (simp only: mult_less_cancel_right_pos)
  moreover have "\<bar>a / b - of_int (js_trunc (a / b))\<bar> * b = \<bar>js_rem a b\<bar>"
    using b by (simp add: js_rem_def abs_mult[symmetric] field_simps del: abs_mult)
  ultimately show ?thesis by simp
qed

lemma js_rem_nonneg: "0 < b \<Longrightarrow> 0 \<le> a \<Longrightarrow> 0 \<le> js_rem a b \<and> js_rem a b < b"
proof -
  assume b: "0 < b" and a: "0 \<le> a"
  then have q: "0 \<le> a / b" by simp
  then have t: "js_trunc (a / b) = \<lfloor>a / b\<rfloor>" by (simp add: js_trunc_def)
  have "of_int \<lfloor>a / b\<rfloor> * b \<le> a" "a < (of_int \<lfloor>a / b\<rfloor> + 1) * b"
    using b floor_divide_lower[of b a] floor_divide_upper[of b a] by simp_all
  then show ?thesis unfolding js_rem_def t by (simp add: algebra_simps)
qed

lemma normalized_heading_range:
  "0 \<le> js_rem (js_rem d 360 + 360) 360 \<and> js_rem (js_rem d 360 + 360) 360 < 360"
proof -
  have "\<bar>js_rem d 360\<bar> < 360" by (rule js_rem_bounds) simp
  then have "0 \<le> js_rem d 360 + 360" by linarith
  then show ?thesis using js_rem_nonneg[of 360 "js_rem d 360 + 360"] by simp
qed

text \<open>
  C10. For every real \<open>d\<close>, \<open>setHeading(d)\<close> stores \<open>((d % 360) + 360) % 360\<close> in
  \<open>heading\<close>, a value in \<open>[0, 360)\<close>; stores that heading in radians in \<open>rotation.y\<close>;
  calls every registered listener once, in registration order, with the updated state;
  and changes no other field of the engine.
\<close>

theorem setHeading_normalizes:
  "heading (state (setHeading d e)) = js_rem (js_rem d 360 + 360) 360
   \<and> 0 \<le> heading (state (setHeading d e)) \<and> heading (state (setHeading d e)) < 360
   \<and> vy (rotation (state (setHeading d e))) = degToRad (heading (state (setHeading d e)))
   \<and> notified (setHeading d e) =
       notified e @ map (\<lambda>l. (l, state (setHeading d e))) (updateListeners e)
   \<and> setHeading d e =
       e\<lparr>state := (state e)\<lparr>heading := js_rem (js_rem d 360 + 360) 360,
                    rotation := (rotation (state e))\<lparr>vy := degToRad (js_rem (js_rem d 360 + 360) 360)\<rparr>\<rparr>,
         notified := notified (setHeading d e)\<rparr>"
  using normalized_heading_range[of d]
  by (simp add: setHeading_def notifyUpdateListeners_def getState_def Let_def)

subsection \<open>The stale-frame guard\<close>

text \<open>
  C7. When \<open>deltaTime = (t - lastUpdateTime) / 1000\<close> exceeds 0.1, \<open>update(t)\<close> changes
  nothing but the time stamp: the state, the boundary status and every other field are
  as before, no listener is called, and \<open>lastUpdateTime\<close> is \<open>t\<close>.
\<close>

theorem update_skips_large_delta:
  assumes "(t - lastUpdateTime e) / 1000 > 0.1"
  shows "update mb t now e = e\<lparr>lastUpdateTime := t\<rparr>
         \<and> state (update mb t now e) = state e
         \<and> boundaryStatus (update mb t now e) = boundaryStatus e
         \<and> notified (update mb t now e) = notified e
         \<and> lastUpdateTime (update mb t now e) = t"
  using assms by (simp add: update_def Let_def)

theorem update_skips_large_delta_witness:
  "(500 - lastUpdateTime (constructor 0 0)) / 1000 > 0.1
   \<and> update MAP_BOUNDARY 500 1000 (constructor 0 0) = (constructor 0 0)\<lparr>lastUpdateTime := 500\<rparr>
   \<and> notified (update MAP_BOUNDARY 500 1000 (constructor 0 0)) = []"
proof -
  have h: "(500 - lastUpdateTime (constructor 0 0)) / 1000 > 0.1"
    by (simp add: constructor_def)
  show ?thesis
    using h update_skips_large_delta[OF h, of MAP_BOUNDARY 1000]
    by (simp add: constructor_def)
qed

subsection \<open>Boundary detection\<close>

lemma atan2_sin_cos:
  assumes "0 \<le> h" "h < pi / 2"
  shows "Math_atan2 (sqrt (sin h * sin h)) (sqrt (1 - sin h * sin h)) = h"
proof -
  have s: "0 \<le> sin h" using assms by (intro sin_ge_zero) (use pi_gt_zero in linarith)+
  have c: "0 < cos h" using assms by (intro cos_gt_zero_pi) (use pi_gt_zero in linarith)+
  have "1 - sin h * sin h = cos h * cos h"
    using sin_cos_squared_add3[of h] by linarith
  then have "sqrt (1 - sin h * sin h) = cos h" using c by simp
  moreover have "sqrt (sin h * sin h) = sin h" using s by simp
  moreover have "arctan (sin h / cos h) = h"
    using arctan_tan[of h] assms by (simp add: tan_def)
  ultimately show ?thesis using c by (simp add: Math_atan2_def)
qed

lemma geo_distance_same_longitude:
  assumes "0 \<le> d" "d < 180"
  shows "calculateGeoDistanceKm lon (lat0 + d) lon lat0 = 6371 * degToRad d"
proof -
  define h where "h = degToRad d / 2"
  have h: "0 \<le> h" "h < pi / 2" using assms by (simp_all add: h_def degToRad_def)
  have dl: "degToRad (lat0 - (lat0 + d)) / 2 = - h" by (simp add: h_def degToRad_def)
  have "calculateGeoDistanceKm lon (lat0 + d) lon lat0 =
        6371 * (2 * Math_atan2 (sqrt (sin h * sin h)) (sqrt (1 - sin h * sin h)))"
    unfolding calculateGeoDistanceKm_def Let_def dl by (simp add: degToRad_def)
  also have "\<dots> = 6371 * (2 * h)" using atan2_sin_cos[OF h] by simp
  finally show ?thesis by (simp add: h_def)
qed

lemma dist_northOfCenter:
  assumes "0 \<le> km" "km < 6371"
  shows "calculateGeoDistanceKm (lng (northOfCenter km)) (lat (northOfCenter km))
           (lng (CENTER MAP_BOUNDARY)) (lat (CENTER MAP_BOUNDARY)) = km"
proof -
  have "180 * km / (6371 * pi) < 180"
  proof -
    have "km / 6371 < 1" using assms by simp
    moreover have "1 < pi" using pi_ge_two by linarith
    ultimately have "km / 6371 < pi" by linarith
    then show ?thesis using pi_gt_zero by (simp add: field_simps)
  qed
  moreover have "0 \<le> 180 * km / (6371 * pi)" using assms pi_gt_zero by simp
  ultimately show ?thesis
    using geo_distance_same_longitude[of "180 * km / (6371 * pi)" "106.636" "10.811"]
    by (simp add: northOfCenter_def MAP_BOUNDARY_def DEFAULT_CENTER_def degToRad_def)
qed

lemma boundary_flags:
  assumes "ENABLED mb"
  shows "isCrossingBoundary (boundaryStatus (updateBoundaryStatus mb e)) =
           (RADIUS_KM mb - calculateGeoDistanceKm (lng (mapPosition (state e))) (lat (mapPosition (state e)))
                             (lng (CENTER mb)) (lat (CENTER mb)) \<le> 0)"
    and "isNearBoundary (boundaryStatus (updateBoundaryStatus mb e)) =
           (WARNING_THRESHOLD mb \<le>
              calculateGeoDistanceKm (lng (mapPosition (state e))) (lat (mapPosition (state e)))
                (lng (CENTER mb)) (lat (CENTER mb)) / RADIUS_KM mb
            \<and> calculateGeoDistanceKm (lng (mapPosition (state e))) (lat (mapPosition (state e)))
                (lng (CENTER mb)) (lat (CENTER mb)) / RADIUS_KM mb < 1)"
    and "stateBoundaryStatus (state (updateBoundaryStatus mb e)) =
           boundaryStatus (updateBoundaryStatus mb e)"
  using assms by (simp_all add: updateBoundaryStatus_def Let_def)

text \<open>
  C8. With the boundary enabled, a radius \<open>R > 0\<close> and warning threshold 0.85,
  recomputing the status for a map position at haversine distance \<open>0.5 R\<close> from the
  centre gives neither near nor crossing; at \<open>0.9 R\<close> it gives near; at \<open>1.1 R\<close> it
  gives crossing. The status stored in the state is the same record.
\<close>

theorem boundary_detection:
  assumes en: "ENABLED mb" and R: "0 < RADIUS_KM mb" and w: "WARNING_THRESHOLD mb = 0.85"
    and p: "mapPosition (state e) = p"
  shows "(calculateGeoDistanceKm (lng p) (lat p) (lng (CENTER mb)) (lat (CENTER mb)) = 0.5 * RADIUS_KM mb
           \<longrightarrow> \<not> isNearBoundary (boundaryStatus (updateBoundaryStatus mb e))
               \<and> \<not> isCrossingBoundary (boundaryStatus (updateBoundaryStatus mb e)))
       \<and> (calculateGeoDistanceKm (lng p) (lat p) (lng (CENTER mb)) (lat (CENTER mb)) = 0.9 * RADIUS_KM mb
           \<longrightarrow> isNearBoundary (boundaryStatus (updateBoundaryStatus mb e)))
       \<and> (calculateGeoDistanceKm (lng p) (lat p) (lng (CENTER mb)) (lat (CENTER mb)) = 1.1 * RADIUS_KM mb
           \<longrightarrow> isCrossingBoundary (boundaryStatus (updateBoundaryStatus mb e)))
       \<and> stateBoundaryStatus (state (updateBoundaryStatus mb e)) = boundaryStatus (updateBoundaryStatus mb e)"
proof -
  define D where "D = calculateGeoDistanceKm (lng p) (lat p) (lng (CENTER mb)) (lat (CENTER mb))"
  have cr: "isCrossingBoundary (boundaryStatus (updateBoundaryStatus mb e)) = (RADIUS_KM mb - D \<le> 0)"
    and nr: "isNearBoundary (boundaryStatus (updateBoundaryStatus mb e)) =
              (0.85 \<le> D / RADIUS_KM mb \<and> D / RADIUS_KM mb < 1)"
    using boundary_flags(1,2)[OF en, of e] by (simp_all add: p D_def w)
  have "D = 0.5 * RADIUS_KM mb \<longrightarrow> \<not> (0.85 \<le> D / RADIUS_KM mb \<and> D / RADIUS_KM mb < 1)
          \<and> \<not> (RADIUS_KM mb - D \<le> 0)"
  proof
    assume h: "D = 0.5 * RADIUS_KM mb"
    then have q: "D / RADIUS_KM mb = 0.5" using R by simp
    have "\<not> (RADIUS_KM mb - D \<le> 0)" using h R by linarith
    then show "\<not> (0.85 \<le> D / RADIUS_KM mb \<and> D / RADIUS_KM mb < 1) \<and> \<not> (RADIUS_KM mb - D \<le> 0)"
      unfolding q by simp
  qed
  moreover have "D = 0.9 * RADIUS_KM mb \<longrightarrow> (0.85 \<le> D / RADIUS_KM mb \<and> D / RADIUS_KM mb < 1)"
  proof
    assume h: "D = 0.9 * RADIUS_KM mb"
    then have q: "D / RADIUS_KM mb = 0.9" using R by simp
    show "0.85 \<le> D / RADIUS_KM mb \<and> D / RADIUS_KM mb < 1" unfolding q by simp
  qed
  moreover have "D = 1.1 * RADIUS_KM mb \<longrightarrow> RADIUS_KM mb - D \<le> 0"
    using R by auto
  ultimately show ?thesis
    unfolding cr nr D_def[symmetric] using boundary_flags(3)[OF en, of e] by blast
qed

theorem boundary_detection_witness:
  "calculateGeoDistanceKm (lng (northOfCenter 5)) (lat (northOfCenter 5))
      (lng (CENTER MAP_BOUNDARY)) (lat (CENTER MAP_BOUNDARY)) = 0.5 * RADIUS_KM MAP_BOUNDARY
   \<and> \<not> isNearBoundary (boundaryStatus (updateMapPosition MAP_BOUNDARY (northOfCenter 5) (constructor 0 0)))
   \<and> \<not> isCrossingBoundary (boundaryStatus (updateMapPosition MAP_BOUNDARY (northOfCenter 5) (constructor 0 0)))
   \<and> calculateGeoDistanceKm (lng (northOfCenter 9)) (lat (northOfCenter 9))
      (lng (CENTER MAP_BOUNDARY)) (lat (CENTER MAP_BOUNDARY)) = 0.9 * RADIUS_KM MAP_BOUNDARY
   \<and> isNearBoundary (boundaryStatus (updateMapPosition MAP_BOUNDARY (northOfCenter 9) (constructor 0 0)))
   \<and> calculateGeoDistanceKm (lng (northOfCenter 11)) (lat (northOfCenter 11))
      (lng (CENTER MAP_BOUNDARY)) (lat (CENTER MAP_BOUNDARY)) = 1.1 * RADIUS_KM MAP_BOUNDARY
   \<and> isCrossingBoundary (boundaryStatus (updateMapPosition MAP_BOUNDARY (northOfCenter 11) (constructor 0 0)))"
proof -
  have en: "ENABLED MAP_BOUNDARY" and R: "0 < RADIUS_KM MAP_BOUNDARY"
    and w: "WARNING_THRESHOLD MAP_BOUNDARY = 0.85"
    by (simp_all add: MAP_BOUNDARY_def)
  have u: "updateMapPosition MAP_BOUNDARY q (constructor 0 0) =
           updateBoundaryStatus MAP_BOUNDARY ((constructor 0 0)\<lparr>state := (state (constructor 0 0))\<lparr>mapPosition := q\<rparr>\<rparr>)"
    for q using en by (simp add: updateMapPosition_def Let_def)
  have d5: "calculateGeoDistanceKm (lng (northOfCenter 5)) (lat (northOfCenter 5))
      (lng (CENTER MAP_BOUNDARY)) (lat (CENTER MAP_BOUNDARY)) = 0.5 * RADIUS_KM MAP_BOUNDARY"
    using dist_northOfCenter[of 5] by (simp add: MAP_BOUNDARY_def)
  have d9: "calculateGeoDistanceKm (lng (northOfCenter 9)) (lat (northOfCenter 9))
      (lng (CENTER MAP_BOUNDARY)) (lat (CENTER MAP_BOUNDARY)) = 0.9 * RADIUS_KM MAP_BOUNDARY"
    using dist_northOfCenter[of 9] by (simp add: MAP_BOUNDARY_def)
  have d11: "calculateGeoDistanceKm (lng (northOfCenter 11)) (lat (northOfCenter 11))
      (lng (CENTER MAP_BOUNDARY)) (lat (CENTER MAP_BOUNDARY)) = 1.1 * RADIUS_KM MAP_BOUNDARY"
    using dist_northOfCenter[of 11] by (simp add: MAP_BOUNDARY_def)
  show ?thesis
    unfolding u
    using d5 d9 d11
      boundary_detection[OF en R w, of "(constructor 0 0)\<lparr>state := (state (constructor 0 0))\<lparr>mapPosition := northOfCenter 5\<rparr>\<rparr>" "northOfCenter 5"]
      boundary_detection[OF en R w, of "(constructor 0 0)\<lparr>state := (state (constructor 0 0))\<lparr>mapPosition := northOfCenter 9\<rparr>\<rparr>" "northOfCenter 9"]
      boundary_detection[OF en R w, of "(constructor 0 0)\<lparr>state := (state (constructor 0 0))\<lparr>mapPosition := northOfCenter 11\<rparr>\<rparr>" "northOfCenter 11"]
    by simp
qed

subsection \<open>What each block of the physics step leaves alone\<close>

lemma state_logAircraft: "state (logAircraft now e) = state e"
  by (simp add: logAircraft_def)

lemma state_updateAircraftPhysics:
  "state (updateAircraftPhysics dt now e) = physicsState (hasUserInput e) (prevControls e) dt now (state e)"
  by (simp add: updateAircraftPhysics_def state_logAircraft)

lemma state_notifyUpdateListeners: "state (notifyUpdateListeners e) = state e"
  by (simp add: notifyUpdateListeners_def Let_def)

lemma updateDerived_frame:
  "position (updateDerived s) = position s"
  "velocity (updateDerived s) = velocity s"
  "rotation (updateDerived s) = rotation s"
  "angularVelocity (updateDerived s) = angularVelocity s"
  "throttle (updateDerived s) = throttle s"
  "speed (updateDerived s) = length3 (velocity s)"
  by (simp_all add: updateDerived_def Let_def split: prod.splits)

lemma groundCollision_frame:
  "rotation (groundCollision s) = rotation s"
  "angularVelocity (groundCollision s) = angularVelocity s"
  "throttle (groundCollision s) = throttle s"
  by (simp_all add: groundCollision_def Let_def)

lemma groundCollision_ground: "0 \<le> vy (position (groundCollision s))"
  by (simp add: groundCollision_def Let_def)

lemma updatePosition_frame:
  "velocity (updatePosition dt s) = velocity s"
  "rotation (updatePosition dt s) = rotation s"
  "angularVelocity (updatePosition dt s) = angularVelocity s"
  "throttle (updatePosition dt s) = throttle s"
  by (simp_all add: updatePosition_def Let_def)

lemma autoStabilize_frame:
  "velocity (autoStabilize u dt s) = velocity s"
  "position (autoStabilize u dt s) = position s"
  "angularVelocity (autoStabilize u dt s) = angularVelocity s"
  "throttle (autoStabilize u dt s) = throttle s"
  by (simp_all add: autoStabilize_def Let_def)

lemma speedLimit_frame:
  "position (speedLimit s) = position s"
  "rotation (speedLimit s) = rotation s"
  "angularVelocity (speedLimit s) = angularVelocity s"
  "throttle (speedLimit s) = throttle s"
  by (simp_all add: speedLimit_def Let_def)

lemma throttleDecay_frame:
  "position (throttleDecay u dt s) = position s"
  "velocity (throttleDecay u dt s) = velocity s"
  "rotation (throttleDecay u dt s) = rotation s"
  "angularVelocity (throttleDecay u dt s) = angularVelocity s"
  by (simp_all add: throttleDecay_def)

lemma applyDrag_frame:
  "position (applyDrag dt s) = position s"
  "rotation (applyDrag dt s) = rotation s"
  "angularVelocity (applyDrag dt s) = angularVelocity s"
  "throttle (applyDrag dt s) = throttle s"
  by (simp_all add: applyDrag_def Let_def)

lemma applyVerticalThrust_frame:
  "position (applyVerticalThrust p dt s) = position s"
  "rotation (applyVerticalThrust p dt s) = rotation s"
  "angularVelocity (applyVerticalThrust p dt s) = angularVelocity s"
  "throttle (applyVerticalThrust p dt s) = throttle s"
  by (simp_all add: applyVerticalThrust_def Let_def)

lemma applyThrust_frame:
  "position (applyThrust p dt s) = position s"
  "rotation (applyThrust p dt s) = rotation s"
  "angularVelocity (applyThrust p dt s) = angularVelocity s"
  "throttle (applyThrust p dt s) = throttle s"
  by (simp_all add: applyThrust_def Let_def)

lemma angularDamping_frame:
  "position (angularDamping dt s) = position s"
  "velocity (angularDamping dt s) = velocity s"
  "rotation (angularDamping dt s) = rotation s"
  "throttle (angularDamping dt s) = throttle s"
  by (simp_all add: angularDamping_def Let_def)

lemma bankingEffects_frame:
  "position (bankingEffects now s) = position s"
  "velocity (bankingEffects now s) = velocity s"
  "angularVelocity (bankingEffects now s) = angularVelocity s"
  "throttle (bankingEffects now s) = throttle s"
  by (simp_all add: bankingEffects_def Let_def)

lemma applyRotation_frame:
  "position (applyRotation dt s) = position s"
  "velocity (applyRotation dt s) = velocity s"
  "angularVelocity (applyRotation dt s) = angularVelocity s"
  "throttle (applyRotation dt s) = throttle s"
  by (simp_all add: applyRotation_def Let_def)

lemmas step_frame = updateDerived_frame groundCollision_frame updatePosition_frame
  autoStabilize_frame speedLimit_frame throttleDecay_frame applyDrag_frame
  applyVerticalThrust_frame applyThrust_frame angularDamping_frame bankingEffects_frame
  applyRotation_frame

lemma throttle_physicsState:
  "throttle (physicsState u p dt now s) =
     (if \<not> u \<and> throttle s > 0 then max 0 (throttle s - THROTTLE_DECAY_RATE * dt) else throttle s)"
  by (simp add: physicsState_def step_frame throttleDecay_def)

lemma ground_physicsState: "0 \<le> vy (position (physicsState u p dt now s))"
  by (simp add: physicsState_def step_frame groundCollision_ground)

subsection \<open>Boundary forces leave position, rotation and throttle alone\<close>

lemma applyBoundaryForce_frame:
  "position (state (applyBoundaryForce f dt e)) = position (state e)"
  "rotation (state (applyBoundaryForce f dt e)) = rotation (state e)"
  "angularVelocity (state (applyBoundaryForce f dt e)) = angularVelocity (state e)"
  "throttle (state (applyBoundaryForce f dt e)) = throttle (state e)"
  "speed (state (applyBoundaryForce f dt e)) = speed (state e)"
  "hasUserInput (applyBoundaryForce f dt e) = hasUserInput e"
  by (simp_all add: applyBoundaryForce_def Let_def)

lemma hardBoundary_frame:
  "position (state (hardBoundary mb e)) = position (state e)"
  "rotation (state (hardBoundary mb e)) = rotation (state e)"
  "angularVelocity (state (hardBoundary mb e)) = angularVelocity (state e)"
  "throttle (state (hardBoundary mb e)) = throttle (state e)"
  "speed (state (hardBoundary mb e)) = speed (state e)"
  "hasUserInput (hardBoundary mb e) = hasUserInput e"
  by (simp_all add: hardBoundary_def Let_def)

lemma applyBoundaryForces_frame:
  "position (state (applyBoundaryForces mb dt e)) = position (state e)"
  "rotation (state (applyBoundaryForces mb dt e)) = rotation (state e)"
  "angularVelocity (state (applyBoundaryForces mb dt e)) = angularVelocity (state e)"
  "throttle (state (applyBoundaryForces mb dt e)) = throttle (state e)"
  "speed (state (applyBoundaryForces mb dt e)) = speed (state e)"
  "hasUserInput (applyBoundaryForces mb dt e) = hasUserInput e"
  by (simp_all add: applyBoundaryForces_def Let_def applyBoundaryForce_frame hardBoundary_frame)

lemma updateBoundaryStatus_frame:
  "position (state (updateBoundaryStatus mb e)) = position (state e)"
  "velocity (state (updateBoundaryStatus mb e)) = velocity (state e)"
  "rotation (state (updateBoundaryStatus mb e)) = rotation (state e)"
  "angularVelocity (state (updateBoundaryStatus mb e)) = angularVelocity (state e)"
  "throttle (state (updateBoundaryStatus mb e)) = throttle (state e)"
  "speed (state (updateBoundaryStatus mb e)) = speed (state e)"
  "hasUserInput (updateBoundaryStatus mb e) = hasUserInput e"
  "prevControls (updateBoundaryStatus mb e) = prevControls e"
  by (simp_all add: updateBoundaryStatus_def Let_def)


subsection \<open>Control inputs\<close>

lemma state_processControls: "state (snd (processControls c e)) = state e"
  by (simp add: processControls_def Let_def split_def)

lemma hasUserInput_applyControlInputs: "hasUserInput (applyControlInputs c e)"
  by (simp add: applyControlInputs_def Let_def split_def)

lemma applyControlInputs_frame:
  "position (state (applyControlInputs c e)) = position (state e)"
  "velocity (state (applyControlInputs c e)) = velocity (state e)"
  "speed (state (applyControlInputs c e)) = speed (state e)"
  by (simp_all add: applyControlInputs_def Let_def split_def state_processControls)

lemma clampTo_range: "0 \<le> m \<Longrightarrow> - m \<le> clampTo m v \<and> clampTo m v \<le> m"
  by (simp add: clampTo_def)

lemma angularVelocity_applyControlInputs:
  "angularVelocity (state (applyControlInputs c e)) =
     \<lparr>vx = clampTo MAX_ANGULAR_VELOCITY
             (vx (angularVelocity (state e)) + c_pitch (fst (processControls c e)) * SENSITIVITY_PITCH),
      vy = clampTo MAX_ANGULAR_VELOCITY
             (vy (angularVelocity (state e)) + c_yaw (fst (processControls c e)) * SENSITIVITY_YAW),
      vz = clampTo MAX_ANGULAR_VELOCITY
             (vz (angularVelocity (state e)) + c_roll (fst (processControls c e)) * SENSITIVITY_ROLL)\<rparr>"
  by (simp add: applyControlInputs_def Let_def split_def state_processControls)

lemma rotation_applyControlInputs:
  "rotation (state (applyControlInputs c e)) =
     \<lparr>vx = clampTo MAX_ROTATION (vx (rotation (state e))),
      vy = vy (rotation (state e)),
      vz = clampTo MAX_ROTATION (vz (rotation (state e)))\<rparr>"
  by (simp add: applyControlInputs_def Let_def split_def state_processControls)

lemma throttle_applyControlInputs:
  "throttle (state (applyControlInputs c e)) =
     (if c_throttle (fst (processControls c e)) \<noteq> 0
      then max 0 (min MAX_THROTTLE (throttle (state e) +
             c_throttle (fst (processControls c e)) * THROTTLE_CHANGE_RATE))
      else throttle (state e))"
  by (simp add: applyControlInputs_def Let_def split_def state_processControls)

subsection \<open>The frame update, field by field\<close>

lemma update_skip:
  "(t - lastUpdateTime e) / 1000 > 0.1 \<Longrightarrow> update mb t now e = e\<lparr>lastUpdateTime := t\<rparr>"
  by (simp add: update_def Let_def)

lemma update_step:
  "\<not> (t - lastUpdateTime e) / 1000 > 0.1 \<Longrightarrow>
   update mb t now e =
     (notifyUpdateListeners (boundaryForcesIfNeeded mb ((t - lastUpdateTime e) / 1000)
        (updateAircraftPhysics ((t - lastUpdateTime e) / 1000) now
           (checkBoundaryStatus mb now (e\<lparr>lastUpdateTime := t\<rparr>)))))\<lparr>hasUserInput := False\<rparr>"
  by (simp add: update_def Let_def)

lemma checkBoundaryStatus_frame:
  "position (state (checkBoundaryStatus mb now e)) = position (state e)"
  "velocity (state (checkBoundaryStatus mb now e)) = velocity (state e)"
  "rotation (state (checkBoundaryStatus mb now e)) = rotation (state e)"
  "angularVelocity (state (checkBoundaryStatus mb now e)) = angularVelocity (state e)"
  "throttle (state (checkBoundaryStatus mb now e)) = throttle (state e)"
  "speed (state (checkBoundaryStatus mb now e)) = speed (state e)"
  "hasUserInput (checkBoundaryStatus mb now e) = hasUserInput e"
  "prevControls (checkBoundaryStatus mb now e) = prevControls e"
  by (simp_all add: checkBoundaryStatus_def updateBoundaryStatus_frame)

lemma boundaryForcesIfNeeded_frame:
  "position (state (boundaryForcesIfNeeded mb dt e)) = position (state e)"
  "rotation (state (boundaryForcesIfNeeded mb dt e)) = rotation (state e)"
  "angularVelocity (state (boundaryForcesIfNeeded mb dt e)) = angularVelocity (state e)"
  "throttle (state (boundaryForcesIfNeeded mb dt e)) = throttle (state e)"
  "speed (state (boundaryForcesIfNeeded mb dt e)) = speed (state e)"
  "hasUserInput (boundaryForcesIfNeeded mb dt e) = hasUserInput e"
  by (simp_all add: boundaryForcesIfNeeded_def applyBoundaryForces_frame)

lemmas update_frame = state_notifyUpdateListeners boundaryForcesIfNeeded_frame
  state_updateAircraftPhysics checkBoundaryStatus_frame

lemma throttle_update:
  "throttle (state (update mb t now e)) =
     (if (t - lastUpdateTime e) / 1000 > 0.1 then throttle (state e)
      else if \<not> hasUserInput e \<and> throttle (state e) > 0
           then max 0 (throttle (state e) - THROTTLE_DECAY_RATE * ((t - lastUpdateTime e) / 1000))
           else throttle (state e))"
proof (cases "(t - lastUpdateTime e) / 1000 > 0.1")
  case True
  then show ?thesis by (simp add: update_skip)
next
  case False
  then show ?thesis
    by (simp add: update_step update_frame throttle_physicsState)
qed

lemma ground_update_step:
  "\<not> (t - lastUpdateTime e) / 1000 > 0.1 \<Longrightarrow> 0 \<le> vy (position (state (update mb t now e)))"
  by (simp add: update_step update_frame ground_physicsState)

lemma ground_update:
  "0 \<le> vy (position (state e)) \<Longrightarrow> 0 \<le> vy (position (state (update mb t now e)))"
  by (cases "(t - lastUpdateTime e) / 1000 > 0.1") (simp_all add: update_skip ground_update_step)

lemma hasUserInput_update:
  "hasUserInput (update mb t now e) = ((t - lastUpdateTime e) / 1000 > 0.1 \<and> hasUserInput e)"
  by (simp add: update_def Let_def)

lemma lastUpdateTime_blocks:
  "lastUpdateTime (notifyUpdateListeners e) = lastUpdateTime e"
  "lastUpdateTime (boundaryForcesIfNeeded mb dt e) = lastUpdateTime e"
  "lastUpdateTime (updateAircraftPhysics dt now e) = lastUpdateTime e"
  "lastUpdateTime (checkBoundaryStatus mb now e) = lastUpdateTime e"
  by (simp_all add: notifyUpdateListeners_def boundaryForcesIfNeeded_def applyBoundaryForces_def
      applyBoundaryForce_def hardBoundary_def updateAircraftPhysics_def logAircraft_def
      checkBoundaryStatus_def updateBoundaryStatus_def Let_def)

lemma lastUpdateTime_update: "lastUpdateTime (update mb t now e) = t"
  by (cases "(t - lastUpdateTime e) / 1000 > 0.1")
     (simp_all add: update_skip update_step lastUpdateTime_blocks)

subsection \<open>Invariants of call sequences\<close>

lemma state_setHeading_frame:
  "position (state (setHeading d e)) = position (state e)"
  "throttle (state (setHeading d e)) = throttle (state e)"
  by (simp_all add: setHeading_def Let_def state_notifyUpdateListeners)

lemma state_updateMapPosition_frame:
  "position (state (updateMapPosition mb p e)) = position (state e)"
  "throttle (state (updateMapPosition mb p e)) = throttle (state e)"
  by (simp_all add: updateMapPosition_def Let_def updateBoundaryStatus_frame)

lemma ground_perform:
  "0 \<le> vy (position (state e)) \<Longrightarrow> 0 \<le> vy (position (state (perform mb c e)))"
  by (cases c)
     (simp_all add: ground_update applyControlInputs_frame state_setHeading_frame
        state_updateMapPosition_frame onPhysicsUpdate_def removeUpdateListener_def)

lemma ground_run:
  "0 \<le> vy (position (state e)) \<Longrightarrow> 0 \<le> vy (position (state (run mb cs e)))"
  by (induction cs arbitrary: e) (simp_all add: ground_perform)

lemma ground_constructor: "0 \<le> vy (position (state (constructor h t0)))"
  by (simp add: constructor_def DEFAULT_ALTITUDE_def)

text \<open>
  C6. In every sequence of calls on a newly constructed engine, \<open>position.y\<close> is at
  least 0 after every \<open>update\<close>. The ground-collision block always leaves
  \<open>position.y \<ge> 0\<close>: when \<open>position.y < 0\<close> it sets it to 0, and then, if the vertical
  velocity is below \<open>-0.5\<close>, replaces it by a tenth of the impact speed directed upward
  and scales the horizontal velocity by 0.8; otherwise it sets the vertical velocity to 0.
\<close>

theorem ground_clamp:
  "0 \<le> vy (position (state (update mb t now (run mb cs (constructor h t0)))))
   \<and> 0 \<le> vy (position (groundCollision s))
   \<and> groundCollision s =
       (if vy (position s) < 0 then
          (if vy (velocity s) < - 0.5 then
             s\<lparr>position := (position s)\<lparr>vy := 0\<rparr>,
               velocity := \<lparr>vx = 0.8 * vx (velocity s), vy = - (0.1 * vy (velocity s)),
                            vz = 0.8 * vz (velocity s)\<rparr>\<rparr>
           else s\<lparr>position := (position s)\<lparr>vy := 0\<rparr>, velocity := (velocity s)\<lparr>vy := 0\<rparr>\<rparr>)
        else s)"
proof -
  have "0 \<le> vy (position (state (update mb t now (run mb cs (constructor h t0)))))"
    by (intro ground_update ground_run ground_constructor)
  moreover have "0 \<le> vy (position (groundCollision s))" by (rule groundCollision_ground)
  moreover have "groundCollision s =
       (if vy (position s) < 0 then
          (if vy (velocity s) < - 0.5 then
             s\<lparr>position := (position s)\<lparr>vy := 0\<rparr>,
               velocity := \<lparr>vx = 0.8 * vx (velocity s), vy = - (0.1 * vy (velocity s)),
                            vz = 0.8 * vz (velocity s)\<rparr>\<rparr>
           else s\<lparr>position := (position s)\<lparr>vy := 0\<rparr>, velocity := (velocity s)\<lparr>vy := 0\<rparr>\<rparr>)
        else s)"
    by (simp add: groundCollision_def Let_def)
  ultimately show ?thesis by blast
qed

lemma throttle_perform:
  assumes "timeOk c e" and "0 \<le> throttle (state e)" and "throttle (state e) \<le> MAX_THROTTLE"
  shows "0 \<le> throttle (state (perform mb c e)) \<and> throttle (state (perform mb c e)) \<le> MAX_THROTTLE"
proof (cases c)
  case (ApplyControlInputs x)
  have "0 \<le> max 0 (min MAX_THROTTLE v) \<and> max 0 (min MAX_THROTTLE v) \<le> MAX_THROTTLE" for v
    by (simp add: MAX_THROTTLE_def)
  then show ?thesis using assms ApplyControlInputs
    by (simp only: perform.simps throttle_applyControlInputs split: if_splits) simp
next
  case (Update t now)
  then have "0 \<le> (t - lastUpdateTime e) / 1000" using assms(1) by simp
  then have "max 0 (throttle (state e) - THROTTLE_DECAY_RATE * ((t - lastUpdateTime e) / 1000))
               \<le> MAX_THROTTLE"
  proof -
    have "0 \<le> THROTTLE_DECAY_RATE * ((t - lastUpdateTime e) / 1000)"
      using \<open>0 \<le> (t - lastUpdateTime e) / 1000\<close> by (simp add: THROTTLE_DECAY_RATE_def)
    then show ?thesis using assms(2,3) by linarith
  qed
  moreover have "0 \<le> max 0 (throttle (state e) - THROTTLE_DECAY_RATE * ((t - lastUpdateTime e) / 1000))"
    by simp
  ultimately show ?thesis using assms(2,3) Update
    by (simp only: perform.simps throttle_update split: if_splits) simp
qed (use assms in \<open>simp_all add: state_setHeading_frame state_updateMapPosition_frame
        onPhysicsUpdate_def removeUpdateListener_def\<close>)

lemma throttle_run:
  "timesOk mb cs e \<Longrightarrow> 0 \<le> throttle (state e) \<Longrightarrow> throttle (state e) \<le> MAX_THROTTLE \<Longrightarrow>
   0 \<le> throttle (state (run mb cs e)) \<and> throttle (state (run mb cs e)) \<le> MAX_THROTTLE"
proof (induction cs arbitrary: e)
  case Nil
  then show ?case by simp
next
  case (Cons c cs)
  from Cons.prems have ok: "timeOk c e" and rest: "timesOk mb cs (perform mb c e)" by simp_all
  from throttle_perform[OF ok Cons.prems(2,3), of mb]
  show ?case using Cons.IH[OF rest] by simp
qed

text \<open>
  C5. After every \<open>applyControlInputs\<close>, at the end of any sequence of calls on a newly
  constructed engine in which the time stamps of \<open>update\<close> do not decrease, each component
  of \<open>angularVelocity\<close> lies in \<open>[-MAX_ANGULAR_VELOCITY, MAX_ANGULAR_VELOCITY]\<close>,
  \<open>rotation.x\<close> and \<open>rotation.z\<close> lie in \<open>[-MAX_ROTATION, MAX_ROTATION]\<close>, and the throttle
  lies in \<open>[0, MAX_THROTTLE]\<close>.
\<close>

theorem control_clamping:
  assumes "timesOk mb cs (constructor h t0)"
    and "e = applyControlInputs c (run mb cs (constructor h t0))"
  shows "- MAX_ANGULAR_VELOCITY \<le> vx (angularVelocity (state e))
       \<and> vx (angularVelocity (state e)) \<le> MAX_ANGULAR_VELOCITY
       \<and> - MAX_ANGULAR_VELOCITY \<le> vy (angularVelocity (state e))
       \<and> vy (angularVelocity (state e)) \<le> MAX_ANGULAR_VELOCITY
       \<and> - MAX_ANGULAR_VELOCITY \<le> vz (angularVelocity (state e))
       \<and> vz (angularVelocity (state e)) \<le> MAX_ANGULAR_VELOCITY
       \<and> - MAX_ROTATION \<le> vx (rotation (state e)) \<and> vx (rotation (state e)) \<le> MAX_ROTATION
       \<and> - MAX_ROTATION \<le> vz (rotation (state e)) \<and> vz (rotation (state e)) \<le> MAX_ROTATION
       \<and> 0 \<le> throttle (state e) \<and> throttle (state e) \<le> MAX_THROTTLE"
proof -
  have av: "0 \<le> MAX_ANGULAR_VELOCITY" by (simp add: MAX_ANGULAR_VELOCITY_def)
  have rot: "0 \<le> MAX_ROTATION" using pi_ge_zero by (simp add: MAX_ROTATION_def)
  let ?r = "run mb cs (constructor h t0)"
  have "0 \<le> throttle (state ?r) \<and> throttle (state ?r) \<le> MAX_THROTTLE"
    by (rule throttle_run[OF assms(1)]) (simp_all add: constructor_def MAX_THROTTLE_def)
  then have th: "0 \<le> throttle (state e) \<and> throttle (state e) \<le> MAX_THROTTLE"
    using throttle_perform[of "ApplyControlInputs c" ?r mb] assms(2) by simp
  show ?thesis
    unfolding assms(2) angularVelocity_applyControlInputs rotation_applyControlInputs
    using clampTo_range[OF av] clampTo_range[OF rot] th[unfolded assms(2)]
    by simp
qed


lemma lastUpdateTime_applyControlInputs:
  "lastUpdateTime (applyControlInputs c e) = lastUpdateTime e"
  by (simp add: applyControlInputs_def processControls_def Let_def split_def)

theorem control_clamping_witness:
  "timesOk MAP_BOUNDARY
     [ApplyControlInputs \<lparr>c_pitch = - 0.8, c_roll = 0, c_yaw = 0, c_throttle = 0.5, c_verticalThrust = 0.1\<rparr>,
      Update 16 1700000000000, Update 32 1700000000016] (constructor 0 0)
   \<and> 0 \<le> throttle (state (applyControlInputs
         \<lparr>c_pitch = 0, c_roll = 0.8, c_yaw = 0, c_throttle = 0.5, c_verticalThrust = 0\<rparr>
         (run MAP_BOUNDARY
           [ApplyControlInputs \<lparr>c_pitch = - 0.8, c_roll = 0, c_yaw = 0, c_throttle = 0.5, c_verticalThrust = 0.1\<rparr>,
            Update 16 1700000000000, Update 32 1700000000016] (constructor 0 0))))
   \<and> throttle (state (applyControlInputs
         \<lparr>c_pitch = 0, c_roll = 0.8, c_yaw = 0, c_throttle = 0.5, c_verticalThrust = 0\<rparr>
         (run MAP_BOUNDARY
           [ApplyControlInputs \<lparr>c_pitch = - 0.8, c_roll = 0, c_yaw = 0, c_throttle = 0.5, c_verticalThrust = 0.1\<rparr>,
            Update 16 1700000000000, Update 32 1700000000016] (constructor 0 0)))) \<le> MAX_THROTTLE
   \<and> vz (angularVelocity (state (applyControlInputs
         \<lparr>c_pitch = 0, c_roll = 0.8, c_yaw = 0, c_throttle = 0.5, c_verticalThrust = 0\<rparr>
         (run MAP_BOUNDARY
           [ApplyControlInputs \<lparr>c_pitch = - 0.8, c_roll = 0, c_yaw = 0, c_throttle = 0.5, c_verticalThrust = 0.1\<rparr>,
            Update 16 1700000000000, Update 32 1700000000016] (constructor 0 0))))) \<le> MAX_ANGULAR_VELOCITY"
proof -
  have ok: "timesOk MAP_BOUNDARY
     [ApplyControlInputs \<lparr>c_pitch = - 0.8, c_roll = 0, c_yaw = 0, c_throttle = 0.5, c_verticalThrust = 0.1\<rparr>,
      Update 16 1700000000000, Update 32 1700000000016] (constructor 0 0)"
    by (simp add: lastUpdateTime_applyControlInputs lastUpdateTime_update)
       (simp add: constructor_def)
  show ?thesis
    using ok control_clamping[OF ok refl,
        of "\<lparr>c_pitch = 0, c_roll = 0.8, c_yaw = 0, c_throttle = 0.5, c_verticalThrust = 0\<rparr>"]
    by blast
qed

subsection \<open>Idle ticks\<close>

lemma Math_pow_unit: "0 \<le> b \<Longrightarrow> b \<le> 1 \<Longrightarrow> 0 \<le> x \<Longrightarrow> 0 \<le> Math_pow b x \<and> Math_pow b x \<le> 1"
  by (simp add: Math_pow_def powr_le1)

lemma Math_pow_one: "0 \<le> b \<Longrightarrow> Math_pow b 1 = b"
  by (simp add: Math_pow_def)

lemma applyRotation_speed: "speed (applyRotation dt s) = speed s"
  by (simp add: applyRotation_def Let_def)

lemma bankingEffects_speed: "speed (bankingEffects now s) = speed s"
  by (simp add: bankingEffects_def Let_def)

lemma angularDamping_cong:
  "angularVelocity s1 = angularVelocity s2 \<Longrightarrow> speed s1 = speed s2 \<Longrightarrow>
   angularVelocity (angularDamping dt s1) = angularVelocity (angularDamping dt s2)"
  by (simp add: angularDamping_def Let_def)

lemma rotation_autoStabilize:
  "rotation (autoStabilize u dt s) =
     (if u then rotation s
      else \<lparr>vx = vx (rotation s) * Math_pow (1 - STABILIZATION_RATE) (dt * PHYSICS_RATE),
            vy = vy (rotation s),
            vz = vz (rotation s) * Math_pow (1 - STABILIZATION_RATE) (dt * PHYSICS_RATE)\<rparr>)"
  by (simp add: autoStabilize_def Let_def STABILIZATION_APPLY_TO_PITCH_def
      STABILIZATION_APPLY_TO_ROLL_def)

lemma rotation_physicsState:
  "rotation (physicsState u p dt now s) =
     rotation (autoStabilize u dt (bankingEffects now (applyRotation dt s)))"
  by (simp add: physicsState_def step_frame rotation_autoStabilize)

lemma angularVelocity_physicsState:
  "angularVelocity (physicsState u p dt now s) =
     angularVelocity (angularDamping dt (bankingEffects now (applyRotation dt s)))"
  by (simp add: physicsState_def step_frame)

lemma rotation_update:
  "rotation (state (update mb t now e)) =
     (if (t - lastUpdateTime e) / 1000 > 0.1 then rotation (state e)
      else rotation (autoStabilize (hasUserInput e) ((t - lastUpdateTime e) / 1000)
             (bankingEffects now (applyRotation ((t - lastUpdateTime e) / 1000) (state e)))))"
proof (cases "(t - lastUpdateTime e) / 1000 > 0.1")
  case True
  then show ?thesis by (simp add: update_skip)
next
  case False
  have "rotation (applyRotation dt (state (checkBoundaryStatus mb now e'))) =
        rotation (applyRotation dt (state e'))" for dt e'
    by (simp add: applyRotation_def Let_def checkBoundaryStatus_frame)
  moreover have "angularVelocity (applyRotation dt (state (checkBoundaryStatus mb now e'))) =
        angularVelocity (applyRotation dt (state e'))" for dt e'
    by (simp add: applyRotation_frame checkBoundaryStatus_frame)
  ultimately have "rotation (bankingEffects now (applyRotation dt (state (checkBoundaryStatus mb now e')))) =
        rotation (bankingEffects now (applyRotation dt (state e')))" for dt e'
    by (simp add: bankingEffects_def Let_def)
  then show ?thesis using False
    by (simp add: update_step update_frame rotation_physicsState rotation_autoStabilize)
qed

lemma angularVelocity_update:
  "angularVelocity (state (update mb t now e)) =
     (if (t - lastUpdateTime e) / 1000 > 0.1 then angularVelocity (state e)
      else angularVelocity (angularDamping ((t - lastUpdateTime e) / 1000) (state e)))"
proof (cases "(t - lastUpdateTime e) / 1000 > 0.1")
  case True
  then show ?thesis by (simp add: update_skip)
next
  case False
  have "angularVelocity (angularDamping dt (bankingEffects now (applyRotation dt (state (checkBoundaryStatus mb now e'))))) =
        angularVelocity (angularDamping dt (state e'))" for dt e'
    by (rule angularDamping_cong)
       (simp_all add: bankingEffects_speed applyRotation_speed step_frame checkBoundaryStatus_frame)
  then show ?thesis using False
    by (simp add: update_step update_frame angularVelocity_physicsState)
qed

text \<open>One idle tick from a state with no pitch or roll rate.\<close>

lemma idle_tick_rotation:
  assumes "\<not> hasUserInput e" and "vx (angularVelocity (state e)) = 0"
    and "vz (angularVelocity (state e)) = 0" and "(t - lastUpdateTime e) / 1000 \<le> 0.1"
  shows "vx (rotation (state (update mb t now e))) =
           vx (rotation (state e)) * Math_pow (1 - STABILIZATION_RATE) ((t - lastUpdateTime e) / 1000 * PHYSICS_RATE)"
    and "vz (rotation (state (update mb t now e))) =
           vz (rotation (state e)) * Math_pow (1 - STABILIZATION_RATE) ((t - lastUpdateTime e) / 1000 * PHYSICS_RATE)"
  using assms
  by (simp_all add: rotation_update rotation_autoStabilize bankingEffects_def applyRotation_def
      ROLL_VELOCITY_THRESHOLD_def Let_def)

lemma idle_tick_angularVelocity:
  assumes "vx (angularVelocity (state e)) = 0" and "vz (angularVelocity (state e)) = 0"
  shows "vx (angularVelocity (state (update mb t now e))) = 0"
    and "vz (angularVelocity (state (update mb t now e))) = 0"
  using assms
  by (simp_all add: angularVelocity_update angularDamping_def Let_def)

lemma shrink_abs: "0 \<le> k \<Longrightarrow> k \<le> 1 \<Longrightarrow> \<bar>r * k\<bar> \<le> \<bar>r\<bar>" for r k :: real
  by (simp add: abs_mult mult_left_le)

lemma idle_tick_magnitudes:
  assumes "\<not> hasUserInput e" and "vx (angularVelocity (state e)) = 0"
    and "vz (angularVelocity (state e)) = 0" and "0 < dtMs"
  shows "pitchMagnitude (update mb (lastUpdateTime e + dtMs) now e) \<le> pitchMagnitude e"
    and "rollMagnitude (update mb (lastUpdateTime e + dtMs) now e) \<le> rollMagnitude e"
proof -
  let ?dt = "(lastUpdateTime e + dtMs - lastUpdateTime e) / 1000"
  have k: "0 \<le> Math_pow (1 - STABILIZATION_RATE) (?dt * PHYSICS_RATE)
         \<and> Math_pow (1 - STABILIZATION_RATE) (?dt * PHYSICS_RATE) \<le> 1"
    using assms(4) by (intro Math_pow_unit) (simp_all add: STABILIZATION_RATE_def PHYSICS_RATE_def)
  show "pitchMagnitude (update mb (lastUpdateTime e + dtMs) now e) \<le> pitchMagnitude e"
  proof (cases "?dt \<le> 0.1")
    case True
    show ?thesis unfolding pitchMagnitude_def idle_tick_rotation(1)[OF assms(1-3) True]
      using k by (intro shrink_abs) simp_all
  next
    case False
    then show ?thesis by (simp add: pitchMagnitude_def rotation_update)
  qed
  show "rollMagnitude (update mb (lastUpdateTime e + dtMs) now e) \<le> rollMagnitude e"
  proof (cases "?dt \<le> 0.1")
    case True
    show ?thesis unfolding rollMagnitude_def idle_tick_rotation(2)[OF assms(1-3) True]
      using k by (intro shrink_abs) simp_all
  next
    case False
    then show ?thesis by (simp add: rollMagnitude_def rotation_update)
  qed
qed

lemma idle_tick_throttle:
  assumes "0 < dtMs"
  shows "throttleOf (update mb (lastUpdateTime e + dtMs) now e) \<le> throttleOf e"
proof -
  have "0 \<le> THROTTLE_DECAY_RATE * ((lastUpdateTime e + dtMs - lastUpdateTime e) / 1000)"
    using assms by (simp add: THROTTLE_DECAY_RATE_def)
  then show ?thesis
    unfolding throttleOf_def throttle_update by (auto simp: max_def)
qed

lemma idle_tick_throttle_nonneg:
  "0 \<le> throttleOf e \<Longrightarrow> 0 \<le> throttleOf (update mb t now e)"
  unfolding throttleOf_def throttle_update by simp


lemma idle_ticks_throttle:
  "0 < dtMs \<Longrightarrow> nonIncreasing (map throttleOf (e # idleTicks mb dtMs nows e))"
proof (induction nows arbitrary: e)
  case Nil
  then show ?case by simp
next
  case (Cons now nows)
  show ?case
    using idle_tick_throttle[OF Cons.prems, of mb e now] Cons.IH[OF Cons.prems]
    by simp
qed

lemma idle_ticks_throttle_nonneg:
  "0 \<le> throttleOf e \<Longrightarrow> list_all (\<lambda>e'. 0 \<le> throttleOf e') (idleTicks mb dtMs nows e)"
proof (induction nows arbitrary: e)
  case Nil
  then show ?case by simp
next
  case (Cons now nows)
  show ?case
    using idle_tick_throttle_nonneg[OF Cons.prems] Cons.IH by simp
qed

lemma idle_ticks_rotation:
  assumes "0 < dtMs"
  shows "\<not> hasUserInput e \<Longrightarrow> vx (angularVelocity (state e)) = 0 \<Longrightarrow>
         vz (angularVelocity (state e)) = 0 \<Longrightarrow>
         nonIncreasing (map pitchMagnitude (e # idleTicks mb dtMs nows e))
         \<and> nonIncreasing (map rollMagnitude (e # idleTicks mb dtMs nows e))"
proof (induction nows arbitrary: e)
  case Nil
  then show ?case by simp
next
  case (Cons now nows)
  let ?e' = "update mb (lastUpdateTime e + dtMs) now e"
  have "\<not> hasUserInput ?e'" using Cons.prems(1) by (simp add: hasUserInput_update)
  moreover have "vx (angularVelocity (state ?e')) = 0" "vz (angularVelocity (state ?e')) = 0"
    using idle_tick_angularVelocity[OF Cons.prems(2,3)] by simp_all
  ultimately have "nonIncreasing (map pitchMagnitude (?e' # idleTicks mb dtMs nows ?e'))
         \<and> nonIncreasing (map rollMagnitude (?e' # idleTicks mb dtMs nows ?e'))"
    by (rule Cons.IH)
  then show ?case
    using idle_tick_magnitudes[OF Cons.prems assms, of mb now] by simp
qed

text \<open>
  C9 as amended. Over any number of consecutive ticks with a fixed positive step and
  no control input, from any starting state, the throttle never increases from one tick
  to the next and stays at or above 0 if it starts there; and if the pitch and roll
  components of the angular velocity are 0 at the start, the magnitudes of
  \<open>rotation.x\<close> and \<open>rotation.z\<close> never increase from one tick to the next.
\<close>

theorem idle_decay:
  assumes "0 < dtMs" and "\<not> hasUserInput e"
  shows "nonIncreasing (map throttleOf (e # idleTicks mb dtMs nows e))
       \<and> (0 \<le> throttleOf e \<longrightarrow> list_all (\<lambda>e'. 0 \<le> throttleOf e') (idleTicks mb dtMs nows e))
       \<and> (vx (angularVelocity (state e)) = 0 \<and> vz (angularVelocity (state e)) = 0 \<longrightarrow>
            nonIncreasing (map pitchMagnitude (e # idleTicks mb dtMs nows e))
          \<and> nonIncreasing (map rollMagnitude (e # idleTicks mb dtMs nows e)))"
  using idle_ticks_throttle[OF assms(1)] idle_ticks_throttle_nonneg
    idle_ticks_rotation[OF assms] by blast

theorem idle_decay_witness:
  "(0::real) < 50 / 3 \<and> \<not> hasUserInput tiltedEngine \<and> 0 \<le> throttleOf tiltedEngine
   \<and> vx (angularVelocity (state tiltedEngine)) = 0 \<and> vz (angularVelocity (state tiltedEngine)) = 0
   \<and> nonIncreasing (map throttleOf
        (tiltedEngine # idleTicks MAP_BOUNDARY (50 / 3) [1700000000000, 1700000000017] tiltedEngine))
   \<and> list_all (\<lambda>e'. 0 \<le> throttleOf e')
        (idleTicks MAP_BOUNDARY (50 / 3) [1700000000000, 1700000000017] tiltedEngine)
   \<and> nonIncreasing (map pitchMagnitude
        (tiltedEngine # idleTicks MAP_BOUNDARY (50 / 3) [1700000000000, 1700000000017] tiltedEngine))
   \<and> nonIncreasing (map rollMagnitude
        (tiltedEngine # idleTicks MAP_BOUNDARY (50 / 3) [1700000000000, 1700000000017] tiltedEngine))"
proof -
  have h1: "(0::real) < 50 / 3" by simp
  have h2: "\<not> hasUserInput tiltedEngine" by (simp add: tiltedEngine_def constructor_def)
  have h3: "0 \<le> throttleOf tiltedEngine" by (simp add: tiltedEngine_def throttleOf_def)
  have h4: "vx (angularVelocity (state tiltedEngine)) = 0 \<and> vz (angularVelocity (state tiltedEngine)) = 0"
    by (simp add: tiltedEngine_def constructor_def)
  show ?thesis
    using h1 h2 h3 h4
      idle_decay[OF h1 h2, of MAP_BOUNDARY "[1700000000000, 1700000000017]"]
    by blast
qed

subsection \<open>An idle tick that raises the pitch magnitude\<close>

lemma pitchKey_processed:
  "fst (processControls pitchKey (constructor 0 0)) = pitchKey"
  by (simp add: processControls_def pitchKey_def constructor_def Let_def MIN_THROTTLE_TO_MOVE_def)

lemma afterKey_fields:
  "angularVelocity (state (applyControlInputs pitchKey (constructor 0 0))) = \<lparr>vx = - 0.056, vy = 0, vz = 0\<rparr>"
  "rotation (state (applyControlInputs pitchKey (constructor 0 0))) = \<lparr>vx = 0, vy = 0, vz = 0\<rparr>"
  "speed (state (applyControlInputs pitchKey (constructor 0 0))) = 0"
  "hasUserInput (applyControlInputs pitchKey (constructor 0 0))"
  "lastUpdateTime (applyControlInputs pitchKey (constructor 0 0)) = 0"
proof -
  show "angularVelocity (state (applyControlInputs pitchKey (constructor 0 0))) = \<lparr>vx = - 0.056, vy = 0, vz = 0\<rparr>"
    unfolding angularVelocity_applyControlInputs pitchKey_processed
    by (simp add: pitchKey_def constructor_def clampTo_def MAX_ANGULAR_VELOCITY_def
        SENSITIVITY_PITCH_def)
  show "rotation (state (applyControlInputs pitchKey (constructor 0 0))) = \<lparr>vx = 0, vy = 0, vz = 0\<rparr>"
    unfolding rotation_applyControlInputs
    by (simp add: constructor_def clampTo_def MAX_ROTATION_def degToRad_def)
  show "speed (state (applyControlInputs pitchKey (constructor 0 0))) = 0"
    by (simp add: applyControlInputs_frame constructor_def)
  show "hasUserInput (applyControlInputs pitchKey (constructor 0 0))"
    by (rule hasUserInput_applyControlInputs)
  show "lastUpdateTime (applyControlInputs pitchKey (constructor 0 0)) = 0"
    by (simp add: lastUpdateTime_applyControlInputs constructor_def)
qed

lemma afterPitchInput_fields:
  "rotation (state afterPitchInput) = \<lparr>vx = - 0.056 / 60, vy = 0, vz = 0\<rparr>"
  "angularVelocity (state afterPitchInput) = \<lparr>vx = - 0.0532, vy = 0, vz = 0\<rparr>"
  "\<not> hasUserInput afterPitchInput"
  "lastUpdateTime afterPitchInput = 50 / 3"
proof -
  show "rotation (state afterPitchInput) = \<lparr>vx = - 0.056 / 60, vy = 0, vz = 0\<rparr>"
    unfolding afterPitchInput_def rotation_update
    by (simp add: afterKey_fields rotation_autoStabilize bankingEffects_def applyRotation_def
        Let_def ROLL_VELOCITY_THRESHOLD_def)
  show "angularVelocity (state afterPitchInput) = \<lparr>vx = - 0.0532, vy = 0, vz = 0\<rparr>"
    unfolding afterPitchInput_def angularVelocity_update
    by (simp add: afterKey_fields angularDamping_def Let_def BASE_DAMPING_def
        SPEED_DEPENDENT_FACTOR_def SPEED_DIVISOR_def PHYSICS_RATE_def Math_pow_one)
  show "\<not> hasUserInput afterPitchInput"
    by (simp add: afterPitchInput_def hasUserInput_update afterKey_fields)
  show "lastUpdateTime afterPitchInput = 50 / 3"
    by (simp add: afterPitchInput_def lastUpdateTime_update)
qed

text \<open>
  C9 as stated fails for a state with residual angular velocity. One frame after a pitch
  input the pitch rate is still \<open>-0.0532\<close>; the next tick, with no input, integrates it
  into \<open>rotation.x\<close> before the stabilization factor 0.97 is applied, and the magnitude
  of \<open>rotation.x\<close> grows from \<open>0.056 / 60\<close> to \<open>0.0017654\<close>.
\<close>

theorem idle_pitch_grows_counterexample:
  "\<not> hasUserInput afterPitchInput
   \<and> \<not> nonIncreasing (map pitchMagnitude
         (afterPitchInput # idleTicks MAP_BOUNDARY (50 / 3) [1700000000017] afterPitchInput))"
proof -
  have "pitchMagnitude (update MAP_BOUNDARY (lastUpdateTime afterPitchInput + 50 / 3) 1700000000017 afterPitchInput)
          = 0.0017654"
    unfolding pitchMagnitude_def rotation_update
    by (simp add: afterPitchInput_fields rotation_autoStabilize bankingEffects_def
        applyRotation_def Let_def ROLL_VELOCITY_THRESHOLD_def STABILIZATION_RATE_def
        PHYSICS_RATE_def Math_pow_one)
  moreover have "pitchMagnitude afterPitchInput = 0.056 / 60"
    by (simp add: pitchMagnitude_def afterPitchInput_fields)
  ultimately show ?thesis
    using afterPitchInput_fields(3) by simp
qed

subsection \<open>A tick next to the boundary\<close>

lemma length3_z: "length3 \<lparr>vx = 0, vy = 0, vz = c\<rparr> = \<bar>c\<bar>"
  by (simp add: length3_def)

lemma direction_northOfCenter:
  assumes "0 < km"
  shows "calculateGeoDirection (lng (northOfCenter km)) (lat (northOfCenter km))
           (lng (CENTER MAP_BOUNDARY)) (lat (CENTER MAP_BOUNDARY)) = \<lparr>ux = 0, uy = - 1\<rparr>"
proof -
  define d where "d = 180 * km / (6371 * pi)"
  have d: "0 < d" using assms pi_gt_zero by (simp add: d_def)
  have "calculateGeoDirection 106.636 (10.811 + d) 106.636 10.811 = \<lparr>ux = 0, uy = - 1\<rparr>"
    using d by (simp add: calculateGeoDirection_def Let_def)
  then show ?thesis
    by (simp add: northOfCenter_def MAP_BOUNDARY_def DEFAULT_CENTER_def d_def)
qed

lemma status_northOfCenter:
  assumes "0 < km" and "km < 6371" and "mapPosition (state e) = northOfCenter km"
  shows "boundaryStatus (updateBoundaryStatus MAP_BOUNDARY e) =
           \<lparr>distanceToCenter = km, distanceToEdge = 10 - km, percentToEdge = km / 10,
            isCrossingBoundary = (10 - km \<le> 0),
            isNearBoundary = (0.85 \<le> km / 10 \<and> km / 10 < 1),
            directionToCenter = \<lparr>ux = 0, uy = 1\<rparr>\<rparr>"
proof -
  have D: "calculateGeoDistanceKm (lng (northOfCenter km)) (lat (northOfCenter km))
            (lng (CENTER MAP_BOUNDARY)) (lat (CENTER MAP_BOUNDARY)) = km"
    using dist_northOfCenter[of km] assms by simp
  have en: "ENABLED MAP_BOUNDARY" "RADIUS_KM MAP_BOUNDARY = 10" "WARNING_THRESHOLD MAP_BOUNDARY = 0.85"
    by (simp_all add: MAP_BOUNDARY_def)
  show ?thesis
    unfolding updateBoundaryStatus_def Let_def assms(3) D direction_northOfCenter[OF assms(1)]
    by (simp add: en)
qed

lemma nearEdge_fields:
  "boundaryStatus nearEdge =
     \<lparr>distanceToCenter = 9.9, distanceToEdge = 0.1, percentToEdge = 0.99,
      isCrossingBoundary = False, isNearBoundary = True,
      directionToCenter = \<lparr>ux = 0, uy = 1\<rparr>\<rparr>"
  "mapPosition (state nearEdge) = northOfCenter 9.9"
  "velocity (state nearEdge) = \<lparr>vx = 0, vy = 0, vz = 0\<rparr>"
  "position (state nearEdge) = \<lparr>vx = 0, vy = 0, vz = 0\<rparr>"
  "throttle (state nearEdge) = 0"
  "speed (state nearEdge) = 0"
  "c_verticalThrust (prevControls nearEdge) = 0"
  "lastUpdateTime nearEdge = 0"
  "lastBoundaryCheck nearEdge = 0"
proof -
  have en: "ENABLED MAP_BOUNDARY" by (simp add: MAP_BOUNDARY_def)
  have u: "nearEdge = updateBoundaryStatus MAP_BOUNDARY
             ((constructor 0 0)\<lparr>state := (state (constructor 0 0))\<lparr>mapPosition := northOfCenter 9.9\<rparr>\<rparr>)"
    by (simp add: nearEdge_def updateMapPosition_def en Let_def)
  show "boundaryStatus nearEdge =
     \<lparr>distanceToCenter = 9.9, distanceToEdge = 0.1, percentToEdge = 0.99,
      isCrossingBoundary = False, isNearBoundary = True,
      directionToCenter = \<lparr>ux = 0, uy = 1\<rparr>\<rparr>"
    unfolding u by (subst status_northOfCenter[of "9.9"]) simp_all
  show "mapPosition (state nearEdge) = northOfCenter 9.9"
    unfolding u by (simp add: updateBoundaryStatus_def Let_def en)
  show "velocity (state nearEdge) = \<lparr>vx = 0, vy = 0, vz = 0\<rparr>"
    unfolding u by (simp add: updateBoundaryStatus_frame) (simp add: constructor_def)
  show "position (state nearEdge) = \<lparr>vx = 0, vy = 0, vz = 0\<rparr>"
    unfolding u by (simp add: updateBoundaryStatus_frame) (simp add: constructor_def DEFAULT_ALTITUDE_def)
  show "throttle (state nearEdge) = 0"
    unfolding u by (simp add: updateBoundaryStatus_frame) (simp add: constructor_def)
  show "speed (state nearEdge) = 0"
    unfolding u by (simp add: updateBoundaryStatus_frame) (simp add: constructor_def)
  show "c_verticalThrust (prevControls nearEdge) = 0"
    unfolding u by (simp add: updateBoundaryStatus_frame) (simp add: constructor_def)
  show "lastUpdateTime nearEdge = 0"
    unfolding u by (simp add: updateBoundaryStatus_def Let_def en) (simp add: constructor_def)
  show "lastBoundaryCheck nearEdge = 0"
    unfolding u by (simp add: updateBoundaryStatus_def Let_def en) (simp add: constructor_def)
qed


lemma boundaryStatus_updateAircraftPhysics:
  "boundaryStatus (updateAircraftPhysics dt now e) = boundaryStatus e"
  by (simp add: updateAircraftPhysics_def logAircraft_def)

lemma mapPosition_frame:
  "mapPosition (updateDerived s) = mapPosition s"
  "mapPosition (groundCollision s) = mapPosition s"
  "mapPosition (updatePosition dt s) = mapPosition s"
  "mapPosition (autoStabilize u dt s) = mapPosition s"
  "mapPosition (speedLimit s) = mapPosition s"
  "mapPosition (throttleDecay u dt s) = mapPosition s"
  "mapPosition (applyDrag dt s) = mapPosition s"
  "mapPosition (applyVerticalThrust p dt s) = mapPosition s"
  "mapPosition (applyThrust p dt s) = mapPosition s"
  "mapPosition (angularDamping dt s) = mapPosition s"
  "mapPosition (bankingEffects now s) = mapPosition s"
  "mapPosition (applyRotation dt s) = mapPosition s"
  by (simp_all add: updateDerived_def groundCollision_def updatePosition_def autoStabilize_def
      speedLimit_def throttleDecay_def applyDrag_def applyVerticalThrust_def applyThrust_def
      angularDamping_def bankingEffects_def applyRotation_def Let_def split: prod.splits)

text \<open>With no thrust, the velocity after the physics step comes from drag, the speed
  limit and the ground collision alone.\<close>

lemma velocity_physicsState_no_thrust:
  assumes "throttle s \<le> MIN_THROTTLE_TO_MOVE" and "c_verticalThrust p = 0"
  shows "velocity (physicsState u p dt now s) =
           velocity (groundCollision (updatePosition dt (speedLimit (applyDrag dt s))))"
    and "position (physicsState u p dt now s) =
           position (groundCollision (updatePosition dt (speedLimit (applyDrag dt s))))"
proof -
  let ?a = "angularDamping dt (bankingEffects now (applyRotation dt s))"
  have t: "applyVerticalThrust p dt (applyThrust p dt ?a) = ?a"
    using assms by (simp add: applyVerticalThrust_def applyThrust_def step_frame Let_def)
  have v: "velocity ?a = velocity s" "position ?a = position s"
    by (simp_all add: step_frame)
  have d: "velocity (applyDrag dt ?a) = velocity (applyDrag dt s)"
          "position (applyDrag dt ?a) = position (applyDrag dt s)"
    by (simp_all add: applyDrag_def Let_def v)
  have sl: "velocity (speedLimit (throttleDecay u dt (applyDrag dt ?a))) = velocity (speedLimit (applyDrag dt s))"
           "position (speedLimit (throttleDecay u dt (applyDrag dt ?a))) = position (speedLimit (applyDrag dt s))"
    by (simp_all add: speedLimit_def Let_def step_frame d)
  have up: "velocity (updatePosition dt (autoStabilize u dt x)) = velocity (updatePosition dt y)"
           "position (updatePosition dt (autoStabilize u dt x)) = position (updatePosition dt y)"
    if "velocity x = velocity y" "position x = position y" for x y
    using that by (simp_all add: updatePosition_def Let_def step_frame)
  have gc: "velocity (groundCollision x) = velocity (groundCollision y)"
           "position (groundCollision x) = position (groundCollision y)"
    if "velocity x = velocity y" "position x = position y" for x y
    using that by (simp_all add: groundCollision_def Let_def)
  show "velocity (physicsState u p dt now s) =
           velocity (groundCollision (updatePosition dt (speedLimit (applyDrag dt s))))"
    unfolding physicsState_def t updateDerived_frame
    by (rule gc(1); rule up; rule sl)
  show "position (physicsState u p dt now s) =
           position (groundCollision (updatePosition dt (speedLimit (applyDrag dt s))))"
    unfolding physicsState_def t updateDerived_frame
    by (rule gc(2); rule up; rule sl)
qed

lemma speed_physicsState:
  "speed (physicsState u p dt now s) = length3 (velocity (physicsState u p dt now s))"
  by (simp add: physicsState_def updateDerived_frame)

text \<open>The push of the near-boundary force for an aircraft due north of the centre.\<close>

lemma boundary_push_north:
  assumes "boundaryStatus e =
     \<lparr>distanceToCenter = 9.9, distanceToEdge = 0.1, percentToEdge = 0.99,
      isCrossingBoundary = False, isNearBoundary = True,
      directionToCenter = \<lparr>ux = 0, uy = 1\<rparr>\<rparr>"
  shows "velocity (state (boundaryForcesIfNeeded MAP_BOUNDARY dt e)) =
           \<lparr>vx = vx (velocity (state e)), vy = vy (velocity (state e)),
            vz = vz (velocity (state e)) + 28 * dt\<rparr>"
  by (simp add: boundaryForcesIfNeeded_def applyBoundaryForces_def applyBoundaryForce_def assms
      MAP_BOUNDARY_def Let_def normalize3_def length3_z multiplyScalar3_def)


lemma prevControls_blocks:
  "prevControls (boundaryForcesIfNeeded mb dt e) = prevControls e"
  "prevControls (updateAircraftPhysics dt now e) = prevControls e"
  "hasUserInput (updateAircraftPhysics dt now e) = hasUserInput e"
  "boundaryStatus (boundaryForcesIfNeeded mb dt e) = boundaryStatus e"
  "boundaryStatus (notifyUpdateListeners e) = boundaryStatus e"
  by (simp_all add: boundaryForcesIfNeeded_def applyBoundaryForces_def applyBoundaryForce_def
      hardBoundary_def updateAircraftPhysics_def logAircraft_def notifyUpdateListeners_def Let_def)

text \<open>The engine \<open>nearEdge\<close> after the boundary check of a frame at time 80.\<close>

lemma nearEdge_checked:
  "boundaryStatus (checkBoundaryStatus MAP_BOUNDARY 1700000000000 (nearEdge\<lparr>lastUpdateTime := 80\<rparr>)) =
     \<lparr>distanceToCenter = 9.9, distanceToEdge = 0.1, percentToEdge = 0.99,
      isCrossingBoundary = False, isNearBoundary = True,
      directionToCenter = \<lparr>ux = 0, uy = 1\<rparr>\<rparr>"
proof -
  have c: "checkBoundaryStatus MAP_BOUNDARY 1700000000000 (nearEdge\<lparr>lastUpdateTime := 80\<rparr>) =
        (updateBoundaryStatus MAP_BOUNDARY (nearEdge\<lparr>lastUpdateTime := 80\<rparr>))\<lparr>lastBoundaryCheck := 1700000000000\<rparr>"
    by (simp add: checkBoundaryStatus_def nearEdge_fields) (simp add: MAP_BOUNDARY_def)
  show ?thesis
    unfolding c by (simp, subst status_northOfCenter[of "9.9"]) (simp_all add: nearEdge_fields)
qed

lemma nearEdge_rest:
  "velocity (groundCollision (updatePosition dt (speedLimit (applyDrag dt (state nearEdge))))) = \<lparr>vx = 0, vy = 0, vz = 0\<rparr>"
  "position (groundCollision (updatePosition dt (speedLimit (applyDrag dt (state nearEdge))))) = \<lparr>vx = 0, vy = 0, vz = 0\<rparr>"
  by (simp_all add: groundCollision_def updatePosition_def speedLimit_def applyDrag_def Let_def
      nearEdge_fields length3_z MAX_SPEED_def)

lemma nearEdge_tick:
  "velocity (state (update MAP_BOUNDARY 80 1700000000000 nearEdge)) = \<lparr>vx = 0, vy = 0, vz = 2.24\<rparr>"
  "position (state (update MAP_BOUNDARY 80 1700000000000 nearEdge)) = \<lparr>vx = 0, vy = 0, vz = 0\<rparr>"
  "speed (state (update MAP_BOUNDARY 80 1700000000000 nearEdge)) = 0"
  "isNearBoundary (boundaryStatus (update MAP_BOUNDARY 80 1700000000000 nearEdge))"
proof -
  let ?e2 = "checkBoundaryStatus MAP_BOUNDARY 1700000000000 (nearEdge\<lparr>lastUpdateTime := 80\<rparr>)"
  let ?e3 = "updateAircraftPhysics (2 / 25) 1700000000000 ?e2"
  have dt: "\<not> (80 - lastUpdateTime nearEdge) / 1000 > 0.1" "(80 - lastUpdateTime nearEdge) / 1000 = 2 / 25"
    by (simp_all add: nearEdge_fields)
  have st: "boundaryStatus ?e3 =
     \<lparr>distanceToCenter = 9.9, distanceToEdge = 0.1, percentToEdge = 0.99,
      isCrossingBoundary = False, isNearBoundary = True,
      directionToCenter = \<lparr>ux = 0, uy = 1\<rparr>\<rparr>"
    by (simp add: boundaryStatus_updateAircraftPhysics nearEdge_checked)
  have th: "throttle (state ?e2) \<le> MIN_THROTTLE_TO_MOVE" "c_verticalThrust (prevControls ?e2) = 0"
    by (simp_all add: checkBoundaryStatus_frame nearEdge_fields MIN_THROTTLE_TO_MOVE_def)
  have vp: "velocity (state ?e2) = \<lparr>vx = 0, vy = 0, vz = 0\<rparr>" "position (state ?e2) = \<lparr>vx = 0, vy = 0, vz = 0\<rparr>"
    by (simp_all add: checkBoundaryStatus_frame nearEdge_fields)
  have v3: "velocity (state ?e3) = \<lparr>vx = 0, vy = 0, vz = 0\<rparr>"
    unfolding state_updateAircraftPhysics velocity_physicsState_no_thrust(1)[OF th]
    by (simp add: groundCollision_def updatePosition_def speedLimit_def applyDrag_def Let_def
        vp length3_z MAX_SPEED_def)
  have p3: "position (state ?e3) = \<lparr>vx = 0, vy = 0, vz = 0\<rparr>"
    unfolding state_updateAircraftPhysics velocity_physicsState_no_thrust(2)[OF th]
    by (simp add: groundCollision_def updatePosition_def speedLimit_def applyDrag_def Let_def
        vp length3_z MAX_SPEED_def)
  have s3: "speed (state ?e3) = 0"
    using v3 unfolding state_updateAircraftPhysics speed_physicsState by (simp add: length3_z)
  show "velocity (state (update MAP_BOUNDARY 80 1700000000000 nearEdge)) = \<lparr>vx = 0, vy = 0, vz = 2.24\<rparr>"
    unfolding update_step[OF dt(1)] dt(2)
    by (simp add: state_notifyUpdateListeners boundary_push_north[OF st] v3)
  show "position (state (update MAP_BOUNDARY 80 1700000000000 nearEdge)) = \<lparr>vx = 0, vy = 0, vz = 0\<rparr>"
    unfolding update_step[OF dt(1)] dt(2)
    by (simp add: state_notifyUpdateListeners boundaryForcesIfNeeded_frame p3)
  show "speed (state (update MAP_BOUNDARY 80 1700000000000 nearEdge)) = 0"
    unfolding update_step[OF dt(1)] dt(2)
    by (simp add: state_notifyUpdateListeners boundaryForcesIfNeeded_frame s3)
  show "isNearBoundary (boundaryStatus (update MAP_BOUNDARY 80 1700000000000 nearEdge))"
    unfolding update_step[OF dt(1)] dt(2)
    by (simp add: prevControls_blocks st)
qed



subsection \<open>Order of integration and boundary forces\<close>




subsection \<open>Ticks without boundary forces\<close>

lemma length3_multiplyScalar3: "length3 (multiplyScalar3 k v) = \<bar>k\<bar> * length3 v"
proof -
  have "vx v * k * (vx v * k) + vy v * k * (vy v * k) + vz v * k * (vz v * k) =
        (k * k) * (vx v * vx v + vy v * vy v + vz v * vz v)"
    by (simp add: algebra_simps)
  then show ?thesis
    by (simp add: length3_def multiplyScalar3_def real_sqrt_mult)
qed

lemma length3_speedLimit: "length3 (velocity (speedLimit s)) \<le> MAX_SPEED"
proof (cases "length3 (velocity s) > MAX_SPEED")
  case True
  then have pos: "0 < length3 (velocity s)" by (simp add: MAX_SPEED_def)
  have "length3 (velocity (speedLimit s)) = MAX_SPEED * (1 / length3 (velocity s) * length3 (velocity s))"
    using True pos
    by (simp add: speedLimit_def Let_def normalize3_def length3_multiplyScalar3 MAX_SPEED_def)
  then show ?thesis using pos by simp
next
  case False
  then show ?thesis by (simp add: speedLimit_def Let_def)
qed

lemma length3_mono:
  assumes "\<bar>vx a\<bar> \<le> \<bar>vx b\<bar>" and "\<bar>vy a\<bar> \<le> \<bar>vy b\<bar>" and "\<bar>vz a\<bar> \<le> \<bar>vz b\<bar>"
  shows "length3 a \<le> length3 b"
proof -
  have "vx a * vx a \<le> vx b * vx b" "vy a * vy a \<le> vy b * vy b" "vz a * vz a \<le> vz b * vz b"
    using assms by (simp_all add: abs_le_square_iff power2_eq_square)
  then show ?thesis unfolding length3_def by (intro real_sqrt_le_mono) linarith
qed

lemma length3_groundCollision: "length3 (velocity (groundCollision s)) \<le> length3 (velocity s)"
  by (rule length3_mono) (simp_all add: groundCollision_def Let_def abs_mult)

lemma velocity_physicsState:
  "velocity (physicsState u p dt now s) =
     velocity (groundCollision (updatePosition dt (autoStabilize u dt (speedLimit
       (throttleDecay u dt (applyDrag dt (applyVerticalThrust p dt (applyThrust p dt
         (angularDamping dt (bankingEffects now (applyRotation dt s)))))))))))"
  by (simp add: physicsState_def updateDerived_frame)

lemma length3_physicsState: "length3 (velocity (physicsState u p dt now s)) \<le> MAX_SPEED"
proof -
  let ?x = "throttleDecay u dt (applyDrag dt (applyVerticalThrust p dt (applyThrust p dt
         (angularDamping dt (bankingEffects now (applyRotation dt s))))))"
  let ?y = "updatePosition dt (autoStabilize u dt (speedLimit ?x))"
  have "length3 (velocity (groundCollision ?y)) \<le> length3 (velocity ?y)"
    by (rule length3_groundCollision)
  also have "velocity ?y = velocity (speedLimit ?x)" by (simp add: step_frame)
  also have "length3 (velocity (speedLimit ?x)) \<le> MAX_SPEED" by (rule length3_speedLimit)
  finally show ?thesis by (simp add: velocity_physicsState)
qed

text \<open>
  On a tick that is not skipped and on which no boundary force is applied (the boundary
  is disabled, or the status is neither near nor crossing), the speed is capped and the
  field \<open>speed\<close> is the norm of the velocity.
\<close>

lemma speed_without_boundary_force:
  assumes "\<not> (t - lastUpdateTime e) / 1000 > 0.1"
    and "\<not> (ENABLED mb \<and>
            (isNearBoundary (boundaryStatus (checkBoundaryStatus mb now (e\<lparr>lastUpdateTime := t\<rparr>))) \<or>
             isCrossingBoundary (boundaryStatus (checkBoundaryStatus mb now (e\<lparr>lastUpdateTime := t\<rparr>)))))"
  shows "length3 (velocity (state (update mb t now e))) \<le> MAX_SPEED"
    and "speed (state (update mb t now e)) = length3 (velocity (state (update mb t now e)))"
proof -
  let ?e2 = "checkBoundaryStatus mb now (e\<lparr>lastUpdateTime := t\<rparr>)"
  let ?e3 = "updateAircraftPhysics ((t - lastUpdateTime e) / 1000) now ?e2"
  have b: "boundaryForcesIfNeeded mb ((t - lastUpdateTime e) / 1000) ?e3 = ?e3"
    using assms(2) by (auto simp: boundaryForcesIfNeeded_def boundaryStatus_updateAircraftPhysics)
  have s: "state (update mb t now e) = state ?e3"
    unfolding update_step[OF assms(1)] b by (simp add: state_notifyUpdateListeners)
  show "length3 (velocity (state (update mb t now e))) \<le> MAX_SPEED"
    unfolding s state_updateAircraftPhysics by (rule length3_physicsState)
  show "speed (state (update mb t now e)) = length3 (velocity (state (update mb t now e)))"
    unfolding s state_updateAircraftPhysics by (rule speed_physicsState)
qed

subsection \<open>Speed after a tick with boundary forces\<close>

text \<open>
  C1 fails on the code. For an aircraft at rest 9.9 km north of the centre of the 10 km
  boundary and a frame of 80 ms, the near-boundary force is added to the velocity after
  the speed limit: after \<open>update\<close> the speed is 2.24, above \<open>MAX_SPEED = 2\<close>.
\<close>

theorem speed_cap_exceeded_near_boundary:
  "isNearBoundary (boundaryStatus (update MAP_BOUNDARY 80 1700000000000 nearEdge))
   \<and> length3 (velocity (state (update MAP_BOUNDARY 80 1700000000000 nearEdge))) = 2.24
   \<and> MAX_SPEED < length3 (velocity (state (update MAP_BOUNDARY 80 1700000000000 nearEdge)))"
  by (simp add: nearEdge_tick length3_z MAX_SPEED_def)

text \<open>
  C4 fails on the code. In the same frame the derived field \<open>speed\<close> is computed before
  the boundary force changes the velocity: after \<open>update\<close>, \<open>speed\<close> is 0 and the norm of
  the velocity is 2.24. Listeners receive this state.
\<close>

theorem speed_stale_near_boundary:
  "speed (state (update MAP_BOUNDARY 80 1700000000000 nearEdge)) = 0
   \<and> length3 (velocity (state (update MAP_BOUNDARY 80 1700000000000 nearEdge))) = 2.24
   \<and> speed (state (update MAP_BOUNDARY 80 1700000000000 nearEdge))
       \<noteq> length3 (velocity (state (update MAP_BOUNDARY 80 1700000000000 nearEdge)))"
  by (simp add: nearEdge_tick length3_z)

subsection \<open>Snapshots share the nested objects\<close>

lemma getState_store_eq:
  "getState_store stateRef h =
     (nextAddr h,
      h\<lparr>objects := (objects h)(nextAddr h \<mapsto> (case objects h stateRef of Some ob \<Rightarrow> ob | None \<Rightarrow> Map.empty)),
        nextAddr := Suc (nextAddr h)\<rparr>)"
  by (simp add: getState_store_def alloc_def)

lemma mutate_topLevel:
  assumes "topLevel m" and "objects h snap \<noteq> None"
  shows "\<exists>h'. mutate snap m h = Some h' \<and> sameBut snap h h'"
proof (cases m)
  case (Assign ps f v)
  with assms(1) have "ps = []" by simp
  with assms(2) Assign show ?thesis by (auto simp: sameBut_def)
qed

lemma sameBut_trans: "sameBut snap h h1 \<Longrightarrow> sameBut snap h1 h2 \<Longrightarrow> sameBut snap h h2"
  by (simp add: sameBut_def)

lemma sameBut_refl: "objects h snap \<noteq> None \<Longrightarrow> sameBut snap h h"
  by (simp add: sameBut_def)

lemma callListener_topLevel:
  "list_all topLevel ms \<Longrightarrow> objects h snap \<noteq> None \<Longrightarrow>
   \<exists>h'. callListener snap ms h = Some h' \<and> sameBut snap h h'"
proof (induction ms arbitrary: h)
  case Nil
  then show ?case by (simp add: sameBut_refl)
next
  case (Cons m ms)
  from Cons.prems have m: "topLevel m" and ms: "list_all topLevel ms" by simp_all
  from mutate_topLevel[OF m Cons.prems(2)]
  obtain h1 where h1: "mutate snap m h = Some h1" "sameBut snap h h1" by blast
  then have "objects h1 snap \<noteq> None" by (simp add: sameBut_def)
  from Cons.IH[OF ms this]
  obtain h2 where h2: "callListener snap ms h1 = Some h2" "sameBut snap h1 h2" by blast
  show ?case using h1 h2 sameBut_trans by auto
qed

lemma callListeners_topLevel:
  "list_all (list_all topLevel) ls \<Longrightarrow> objects h snap \<noteq> None \<Longrightarrow>
   \<exists>h'. callListeners snap ls h = Some h' \<and> sameBut snap h h'"
proof (induction ls arbitrary: h)
  case Nil
  then show ?case by (simp add: sameBut_refl)
next
  case (Cons l ls)
  from Cons.prems have l: "list_all topLevel l" and ls: "list_all (list_all topLevel) ls" by simp_all
  from callListener_topLevel[OF l Cons.prems(2)]
  obtain h1 where h1: "callListener snap l h = Some h1" "sameBut snap h h1" by blast
  then have "objects h1 snap \<noteq> None" by (simp add: sameBut_def)
  from Cons.IH[OF ls this]
  obtain h2 where h2: "callListeners snap ls h1 = Some h2" "sameBut snap h1 h2" by blast
  show ?case using h1 h2 sameBut_trans by auto
qed

text \<open>Paths from an object below \<open>nextAddr\<close> never reach the new snapshot.\<close>

lemma resolve_below:
  "wf_store h \<Longrightarrow> resolve h a ps = Some b \<Longrightarrow> b < nextAddr h"
proof (induction ps arbitrary: a)
  case Nil
  then show ?case by (auto simp: wf_store_def split: option.splits)
next
  case (Cons p ps)
  then show ?case by (auto split: option.splits jsval.splits)
qed

lemma resolve_unchanged:
  assumes "wf_store h" and "\<forall>a. a < nextAddr h \<longrightarrow> objects h' a = objects h a"
  shows "a < nextAddr h \<Longrightarrow> resolve h' a ps = resolve h a ps"
proof (induction ps arbitrary: a)
  case Nil
  then show ?case using assms(2) by simp
next
  case (Cons p ps)
  have eq: "objects h' a = objects h a" using assms(2) Cons.prems by simp
  show ?case
  proof (cases "objects h a")
    case None
    then show ?thesis using eq by simp
  next
    case (Some ob)
    show ?thesis
    proof (cases "ob p")
      case None
      then show ?thesis using eq Some by simp
    next
      case (Some v)
      show ?thesis
      proof (cases v)
        case (JRef b)
        then have "b < nextAddr h"
          using assms(1) \<open>objects h a = Some ob\<close> Some by (auto simp: wf_store_def)
        then show ?thesis
          using eq \<open>objects h a = Some ob\<close> Some JRef Cons.IH by simp
      qed (use eq \<open>objects h a = Some ob\<close> Some in simp_all)
    qed
  qed
qed

lemma readPath_unchanged:
  assumes "wf_store h" and "\<forall>a. a < nextAddr h \<longrightarrow> objects h' a = objects h a"
    and "a < nextAddr h"
  shows "readPath h' a ps f = readPath h a ps f"
proof -
  have r: "resolve h' a ps = resolve h a ps" by (rule resolve_unchanged[OF assms])
  show ?thesis
  proof (cases "resolve h a ps")
    case None
    then show ?thesis using r by (simp add: readPath_def)
  next
    case (Some b)
    then have "b < nextAddr h" using resolve_below[OF assms(1)] by blast
    then show ?thesis using r Some assms(2) by (simp add: readPath_def)
  qed
qed

text \<open>
  C2 as amended. The snapshot that \<open>getState\<close> returns and \<open>notifyUpdateListeners\<close>
  passes to the listeners is a shallow copy: a new object, distinct from the engine's
  state object, holding the same property values, hence the same references to the
  nested objects. Whatever the listeners assign to properties of the snapshot itself,
  the notification completes and everything reachable from the engine's state reads as
  before; every object that existed before is unchanged.
\<close>

theorem snapshot_is_shallow_copy:
  assumes "wf_store h" and "objects h stateRef = Some st"
    and "list_all (list_all topLevel) listeners"
  shows "fst (getState_store stateRef h) \<noteq> stateRef
       \<and> objects (snd (getState_store stateRef h)) (fst (getState_store stateRef h)) = Some st
       \<and> (\<exists>h'. notifyUpdateListeners_store stateRef listeners h = Some h'
              \<and> (\<forall>ps f. readPath h' stateRef ps f = readPath h stateRef ps f)
              \<and> (\<forall>a ob. objects h a = Some ob \<longrightarrow> objects h' a = Some ob))"
proof -
  let ?snap = "nextAddr h"
  let ?h1 = "h\<lparr>objects := (objects h)(?snap \<mapsto> st), nextAddr := Suc ?snap\<rparr>"
  have g: "getState_store stateRef h = (?snap, ?h1)"
    by (simp add: getState_store_eq assms(2))
  have below: "a < ?snap" if "objects h a = Some ob" for a ob
    using assms(1) that by (auto simp: wf_store_def)
  have sr: "stateRef < ?snap" using below[OF assms(2)] .
  have "objects ?h1 ?snap \<noteq> None" by simp
  from callListeners_topLevel[OF assms(3) this]
  obtain h' where h': "callListeners ?snap listeners ?h1 = Some h'" "sameBut ?snap ?h1 h'" by blast
  have agree: "\<forall>a. a < ?snap \<longrightarrow> objects h' a = objects h a"
    using h'(2) by (auto simp: sameBut_def)
  have n: "notifyUpdateListeners_store stateRef listeners h = Some h'"
    by (simp add: notifyUpdateListeners_store_def g h'(1))
  have "\<forall>ps f. readPath h' stateRef ps f = readPath h stateRef ps f"
    using readPath_unchanged[OF assms(1) agree sr] by blast
  moreover have "\<forall>a ob. objects h a = Some ob \<longrightarrow> objects h' a = Some ob"
    using agree below by auto
  ultimately show ?thesis using n sr by (auto simp: g)
qed


subsection \<open>The store after construction\<close>

lemma constructor_store_eq:
  "constructor_store d =
     (7, \<lparr>objects =
            [0 \<mapsto> [''lng'' \<mapsto> JNum 106.636, ''lat'' \<mapsto> JNum 10.811],
             1 \<mapsto> [''x'' \<mapsto> JNum 0, ''y'' \<mapsto> JNum 0],
             2 \<mapsto> [''distanceToCenter'' \<mapsto> JNum 0, ''distanceToEdge'' \<mapsto> JNum 0,
                   ''percentToEdge'' \<mapsto> JNum 0, ''isCrossingBoundary'' \<mapsto> JBool False,
                   ''isNearBoundary'' \<mapsto> JBool False, ''directionToCenter'' \<mapsto> JRef 1],
             3 \<mapsto> vectorObj 0 DEFAULT_ALTITUDE 0,
             4 \<mapsto> vectorObj 0 0 0,
             5 \<mapsto> vectorObj 0 (degToRad d) 0,
             6 \<mapsto> vectorObj 0 0 0,
             7 \<mapsto> [''position'' \<mapsto> JRef 3, ''velocity'' \<mapsto> JRef 4, ''speed'' \<mapsto> JNum 0,
                   ''altitude'' \<mapsto> JNum DEFAULT_ALTITUDE, ''heading'' \<mapsto> JNum d,
                   ''pitch'' \<mapsto> JNum 0, ''roll'' \<mapsto> JNum 0, ''rotation'' \<mapsto> JRef 5,
                   ''angularVelocity'' \<mapsto> JRef 6, ''throttle'' \<mapsto> JNum 0,
                   ''isFlying'' \<mapsto> JBool True, ''isGrounded'' \<mapsto> JBool False,
                   ''mapPosition'' \<mapsto> JRef 0, ''boundaryStatus'' \<mapsto> JRef 2]],
          nextAddr = 8\<rparr>)"
  by (simp add: constructor_store_def alloc_def Let_def eval_nat_numeral)

lemma wf_constructor_store: "wf_store (snd (constructor_store d))"
  unfolding constructor_store_eq wf_store_def
  by (auto simp: vectorObj_def split: if_splits)


lemma state_object_constructed:
  "objects (snd (constructor_store 0)) (fst (constructor_store 0)) =
     Some (the (objects (snd (constructor_store 0)) (fst (constructor_store 0))))"
  unfolding constructor_store_eq by simp

theorem snapshot_is_shallow_copy_witness:
  "wf_store (snd (constructor_store 0))
   \<and> objects (snd (constructor_store 0)) (fst (constructor_store 0)) =
       Some (the (objects (snd (constructor_store 0)) (fst (constructor_store 0))))
   \<and> list_all (list_all topLevel)
       [[Assign [] ''speed'' (JNum 99), Assign [] ''position'' (JRef 0)], [Assign [] ''throttle'' (JNum 1)]]
   \<and> (\<exists>h'. notifyUpdateListeners_store (fst (constructor_store 0))
               [[Assign [] ''speed'' (JNum 99), Assign [] ''position'' (JRef 0)], [Assign [] ''throttle'' (JNum 1)]]
               (snd (constructor_store 0)) = Some h'
            \<and> (\<forall>ps f. readPath h' (fst (constructor_store 0)) ps f =
                        readPath (snd (constructor_store 0)) (fst (constructor_store 0)) ps f))"
proof -
  have h1: "wf_store (snd (constructor_store 0))" by (rule wf_constructor_store)
  have h3: "list_all (list_all topLevel)
       [[Assign [] ''speed'' (JNum 99), Assign [] ''position'' (JRef 0)], [Assign [] ''throttle'' (JNum 1)]]"
    by simp
  show ?thesis
    using h1 state_object_constructed h3
      snapshot_is_shallow_copy[OF h1 state_object_constructed h3]
    by blast
qed

text \<open>
  C2 as stated fails for a mutation of a nested object. On the store left by the
  constructor, a listener that performs \<open>snapshot.position.x = 5\<close> changes the engine's
  own position: \<open>this.state.position.x\<close> reads 0 before the notification and 5 after it.
\<close>

theorem snapshot_mutation_counterexample:
  "readPath (snd (constructor_store 0)) (fst (constructor_store 0)) [''position''] ''x'' = Some (JNum 0)
   \<and> notifyUpdateListeners_store (fst (constructor_store 0))
        [[Assign [''position''] ''x'' (JNum 5)]] (snd (constructor_store 0)) \<noteq> None
   \<and> readPath (the (notifyUpdateListeners_store (fst (constructor_store 0))
                      [[Assign [''position''] ''x'' (JNum 5)]] (snd (constructor_store 0))))
        (fst (constructor_store 0)) [''position''] ''x'' = Some (JNum 5)"
  unfolding constructor_store_eq
  by (simp add: notifyUpdateListeners_store_def getState_store_eq readPath_def vectorObj_def)

end
